theory Spec2Isabelle
  imports Main
begin

section \<open>The command entry point of bin/cmd.js\<close>

text \<open>
  The file bin/cmd.js holds two functions: \<open>parseYargs\<close>, which guards the call of the
  option parser, and \<open>modulenameCmd\<close>, the entry point. Both are written in
  continuation-passing style, so the embedding threads an explicit world through every
  call: the trace of observable events, the queue of tasks deferred to a later turn of
  the event loop, and the state of the one Promise an invocation may create. A JavaScript
  function that may throw returns the thrown error as \<open>Some e\<close> next to the new world.

  The option parser (yargs), the wrapped library function (\<open>require('..')\<close>), the streams
  and the caller's callback are not part of the file. They are parameters of the model:
  the environment gives the behaviour of the parser for each token list and of the
  wrapped function for each options object. The chain of lines 128 to 146 configures the
  parser (usage, help, version, the two counters, strict mode) and has no other effect;
  its outcome is the parser of the environment.

  The block of lines 185 to 204 runs only when the file is the main module of the
  process: it calls the entry point with \<open>process.argv\<close> and the standard streams and
  turns the result into the exit code. It is not part of this development.
\<close>

subsection \<open>Values\<close>

text \<open>Error objects, with the \<open>name\<close> and \<open>message\<close> properties the code reads.\<close>

datatype js_error =
    TypeError string
  | RangeError string
  | OtherError string string

fun err_name :: "js_error \<Rightarrow> string" where
  "err_name (TypeError m) = ''TypeError''"
| "err_name (RangeError m) = ''RangeError''"
| "err_name (OtherError n m) = n"

fun err_message :: "js_error \<Rightarrow> string" where
  "err_message (TypeError m) = m"
| "err_message (RangeError m) = m"
| "err_message (OtherError n m) = m"

text \<open>
  The entries of an argument array, and \<open>String(x)\<close> on them. Numbers and objects are
  left out: their string conversion is not needed for a command line.
\<close>

datatype js_prim = JUndefined | JNull | JBool bool | JString string

fun String_js :: "js_prim \<Rightarrow> string" where
  "String_js JUndefined = ''undefined''"
| "String_js JNull = ''null''"
| "String_js (JBool True) = ''true''"
| "String_js (JBool False) = ''false''"
| "String_js (JString s) = s"

text \<open>
  The \<open>args\<close> argument, by the tests of lines 87 to 92: \<open>undefined\<close>, \<open>null\<close>, a
  value whose \<open>typeof\<close> is not \<open>'object'\<close>, an object whose \<open>length\<close> is not an
  integral number (\<open>Math.floor(args.length) !== args.length\<close>), and an array, or an
  array-like object with an entry at every index below its \<open>length\<close>, given by the
  list of its entries. Sparse array-like objects are left out.
\<close>

datatype args_arg =
    ArgsUndefined
  | ArgsNull
  | ArgsNotObject
  | ArgsNoLength
  | ArgsArray "js_prim list"

text \<open>
  A stream option holds a falsy value or an object; of an object the code only tests
  whether \<open>on\<close> and \<open>write\<close> are functions. \<open>sid\<close> tells the objects apart. The
  code never calls \<open>on\<close>, and \<open>write\<close> is taken to return normally, as the one of a
  \<open>stream.Writable\<close> does on a string.
\<close>

record stream =
  sid :: nat
  on_is_function :: bool
  write_is_function :: bool

datatype stream_val = SFalsy | SObject stream

text \<open>
  The own properties \<open>in\<close>, \<open>out\<close> and \<open>err\<close> of an options object; \<open>None\<close> is a
  missing key, \<open>Some SFalsy\<close> a key holding \<open>undefined\<close> or another falsy value.
\<close>

record command_options =
  opt_in :: "stream_val option"
  opt_out :: "stream_val option"
  opt_err :: "stream_val option"

text \<open>
  A completion callback receives \<open>(err, result)\<close>; a missing argument is \<open>None\<close>.
  A caller's function is given by what it throws on each pair of arguments. The second
  kind of callback is the closure of lines 76 to 78, which settles the Promise.
\<close>

type_synonym user_fn = "js_error option \<Rightarrow> int option \<Rightarrow> js_error option"

datatype callback_fn = UserFn user_fn | SettleFn

datatype options_arg =
    OptUndefined
  | OptNull
  | OptPrimitive
  | OptFunction callback_fn
  | OptObject command_options

text \<open>
  The \<open>callback\<close> argument: \<open>undefined\<close> (omitted), \<open>null\<close>, another falsy value
  (\<open>0\<close>, \<open>''\<close>, \<open>false\<close>), a truthy value that is not a function, or a function.
\<close>

datatype callback_arg =
    CbUndefined
  | CbNull
  | CbFalsy
  | CbTruthy
  | CbFunction callback_fn

fun truthy :: "callback_arg \<Rightarrow> bool" where
  "truthy (CbFunction f) = True"
| "truthy CbTruthy = True"
| "truthy CbUndefined = False"
| "truthy CbNull = False"
| "truthy CbFalsy = False"

subsection \<open>The collaborators\<close>

text \<open>
  What the parser hands to its completion: \<open>(err, argv, output)\<close>. With an error the
  code reads \<open>err\<close> and \<open>output\<close> only; without one it reads \<open>output\<close> and, of
  \<open>argv\<close>, the fields \<open>help\<close>, \<open>version\<close>, \<open>_\<close>, \<open>verbose\<close> and \<open>quiet\<close>. The empty
  string is the falsy \<open>output\<close>.
\<close>

record arg_opts =
  opt_help :: bool
  opt_version :: bool
  positional :: "string list"
  opt_verbose :: nat
  opt_quiet :: nat

datatype parse_outcome =
    ParseError js_error string
  | ParseOk arg_opts string

text \<open>
  One call of \<open>yargs.parse(args, fn)\<close>: the parser calls \<open>fn\<close> at most once before it
  returns, and it returns normally or throws. An exception of \<open>fn\<close> passes through the
  parser, and the parser does not call \<open>fn\<close> on a later turn (both in the comment of
  lines 21 to 23).
\<close>

datatype yargs_run = YargsRun (completes: "parse_outcome option") (throws: "js_error option")

definition yargs_parse ::
    "yargs_run \<Rightarrow> (parse_outcome \<Rightarrow> 's \<Rightarrow> js_error option \<times> 's) \<Rightarrow> 's \<Rightarrow> js_error option \<times> 's" where
  "yargs_parse run fn s =
     (case completes run of
        None \<Rightarrow> (throws run, s)
      | Some po \<Rightarrow>
          (case fn po s of
             (Some e, s') \<Rightarrow> (Some e, s')
           | (None, s') \<Rightarrow> (throws run, s')))"

text \<open>The object built at lines 172 to 175.\<close>

record call_options =
  files :: "string list"
  verbosity :: int

text \<open>
  One call of the wrapped function: it reports \<open>(err, code)\<close> to the callback before it
  returns (and then returns or throws), or on a later turn, or it throws without
  reporting. An exception of the callback passes through the wrapped function.
\<close>

datatype wrapped_run =
    ReportsNow "js_error option" "int option" "js_error option"
  | ReportsLater "js_error option" "int option"
  | ThrowsOnly js_error

record env =
  promise_defined :: bool
  process_stdin :: stream_val
  process_stdout :: stream_val
  process_stderr :: stream_val
  yargs :: "string list \<Rightarrow> yargs_run"
  modulename :: "call_options \<Rightarrow> wrapped_run"

subsection \<open>The world\<close>

text \<open>
  The events of a run: the tokens handed to the parser, a write through \<open>options.out\<close>
  or \<open>options.err\<close> (with the stream written to), a call of the wrapped function, a call
  of the completion callback with \<open>(err, result)\<close>, and an exception that no caller
  catches on a later turn. A task is a call of the completion callback deferred to a
  later turn, by \<open>process.nextTick\<close> or by the wrapped function.
\<close>

datatype channel = Out | Err

datatype event =
    Parsing "string list"
  | Wrote channel nat string
  | Invoked call_options
  | Signal "js_error option" "int option"
  | Uncaught js_error

datatype task = Deliver callback_fn "js_error option" "int option"

datatype promise_state = Pending | Resolved "int option" | Rejected js_error

record world =
  trace :: "event list"
  ticks :: "task list"
  promise :: "promise_state option"

definition init_world :: world where
  "init_world = \<lparr>trace = [], ticks = [], promise = None\<rparr>"

definition record_event :: "event \<Rightarrow> world \<Rightarrow> world" where
  "record_event ev w = w\<lparr>trace := trace w @ [ev]\<rparr>"

definition next_tick :: "task \<Rightarrow> world \<Rightarrow> world" where
  "next_tick t w = w\<lparr>ticks := ticks w @ [t]\<rparr>"

text \<open>\<open>resolve\<close> and \<open>reject\<close> act on a pending Promise only.\<close>

definition settle :: "promise_state \<Rightarrow> world \<Rightarrow> world" where
  "settle st w = (if promise w = Some Pending then w\<lparr>promise := Some st\<rparr> else w)"

definition newline :: string where
  "newline = [CHR 0x0A]"

definition write_stream :: "channel \<Rightarrow> stream \<Rightarrow> string \<Rightarrow> world \<Rightarrow> world" where
  "write_stream ch s chunk w = record_event (Wrote ch (sid s) chunk) w"

text \<open>
  Calling the completion callback with \<open>(err, result)\<close>. The closure of lines 76 to 78
  is \<open>if (err) { reject(err); } else { resolve(result); }\<close>.
\<close>

fun invoke_callback ::
    "callback_fn \<Rightarrow> js_error option \<Rightarrow> int option \<Rightarrow> world \<Rightarrow> js_error option \<times> world" where
  "invoke_callback (UserFn f) err result w = (f err result, record_event (Signal err result) w)"
| "invoke_callback SettleFn err result w =
     (None,
      settle (case err of Some e \<Rightarrow> Rejected e | None \<Rightarrow> Resolved result)
        (record_event (Signal err result) w))"

subsection \<open>parseYargs (lines 20 to 38)\<close>

text \<open>
  The variable \<open>called\<close> is part of the state the parser runs on; the function handed to
  the parser sets it before it calls \<open>callback\<close>. In the \<open>catch\<close> branch,
  \<open>callback(err)\<close> passes no \<open>argv\<close> and no \<open>output\<close>.
\<close>

definition parseYargs ::
    "(string list \<Rightarrow> yargs_run) \<Rightarrow> string list \<Rightarrow>
     (parse_outcome \<Rightarrow> 's \<Rightarrow> js_error option \<times> 's) \<Rightarrow> 's \<Rightarrow> js_error option \<times> 's" where
  "parseYargs parser args callback s =
     (case yargs_parse (parser args)
             (\<lambda>po (called, s1). case callback po s1 of (r, s2) \<Rightarrow> (r, (True, s2)))
             (False, s) of
        (None, (called, s')) \<Rightarrow> (None, s')
      | (Some err, (called, s')) \<Rightarrow>
          if called then (Some err, s') else callback (ParseError err []) s')"

subsection \<open>modulenameCmd (lines 67 to 180)\<close>

text \<open>Lines 87 to 96.\<close>

definition normalize_args :: "args_arg \<Rightarrow> js_error + string list" where
  "normalize_args args =
     (case args of
        ArgsUndefined \<Rightarrow> Inr []
      | ArgsNull \<Rightarrow> Inr []
      | ArgsNotObject \<Rightarrow> Inl (TypeError ''args must be Array-like'')
      | ArgsNoLength \<Rightarrow> Inl (TypeError ''args must be Array-like'')
      | ArgsArray xs \<Rightarrow>
          if length xs < 2 then Inl (RangeError ''args must have at least 2 elements'')
          else Inr (map String_js (drop 2 xs)))"

text \<open>
  Lines 98 to 119. \<open>assign\<close> copies the own properties of \<open>options\<close> over the defaults
  and skips \<open>null\<close> and \<open>undefined\<close>.
\<close>

record streams =
  s_in :: stream
  s_out :: stream
  s_err :: stream

definition assign :: "env \<Rightarrow> command_options \<Rightarrow> stream_val \<times> stream_val \<times> stream_val" where
  "assign e opts =
     (case_option (process_stdin e) id (opt_in opts),
      case_option (process_stdout e) id (opt_out opts),
      case_option (process_stderr e) id (opt_err opts))"

definition check_streams :: "stream_val \<times> stream_val \<times> stream_val \<Rightarrow> js_error + streams" where
  "check_streams vs =
     (case vs of (vin, vout, verr) \<Rightarrow>
        (case vin of
           SFalsy \<Rightarrow> Inl (TypeError ''options.in must be a stream.Readable'')
         | SObject i \<Rightarrow>
             if on_is_function i then
               (case vout of
                  SFalsy \<Rightarrow> Inl (TypeError ''options.out must be a stream.Writable'')
                | SObject out \<Rightarrow>
                    if write_is_function out then
                      (case verr of
                         SFalsy \<Rightarrow> Inl (TypeError ''options.err must be a stream.Writable'')
                       | SObject er \<Rightarrow>
                           if write_is_function er
                           then Inr \<lparr>s_in = i, s_out = out, s_err = er\<rparr>
                           else Inl (TypeError ''options.err must be a stream.Writable''))
                    else Inl (TypeError ''options.out must be a stream.Writable''))
             else Inl (TypeError ''options.in must be a stream.Readable'')))"

definition resolve_options :: "env \<Rightarrow> options_arg \<Rightarrow> js_error + streams" where
  "resolve_options e options =
     (case options of
        OptUndefined \<Rightarrow> check_streams (process_stdin e, process_stdout e, process_stderr e)
      | OptNull \<Rightarrow> check_streams (process_stdin e, process_stdout e, process_stderr e)
      | OptPrimitive \<Rightarrow> Inl (TypeError ''options must be an object'')
      | OptFunction f \<Rightarrow> Inl (TypeError ''options must be an object'')
      | OptObject opts \<Rightarrow> check_streams (assign e opts))"

text \<open>The \<open>try\<close> block of lines 86 to 119: the first failing check decides.\<close>

definition validate :: "env \<Rightarrow> args_arg \<Rightarrow> options_arg \<Rightarrow> js_error + (string list \<times> streams)" where
  "validate e args options =
     (case normalize_args args of
        Inl err \<Rightarrow> Inl err
      | Inr argv \<Rightarrow>
          (case resolve_options e options of
             Inl err \<Rightarrow> Inl err
           | Inr st \<Rightarrow> Inr (argv, st)))"

text \<open>Line 176: \<open>modulename(cmdOpts, callback)\<close>.\<close>

definition call_modulename ::
    "env \<Rightarrow> call_options \<Rightarrow> callback_fn \<Rightarrow> world \<Rightarrow> js_error option \<times> world" where
  "call_modulename e cmdOpts callback w =
     (case modulename e cmdOpts of
        ReportsNow err code after \<Rightarrow>
          (case invoke_callback callback err code (record_event (Invoked cmdOpts) w) of
             (Some x, w') \<Rightarrow> (Some x, w')
           | (None, w') \<Rightarrow> (after, w'))
      | ReportsLater err code \<Rightarrow>
          (None, next_tick (Deliver callback err code) (record_event (Invoked cmdOpts) w))
      | ThrowsOnly x \<Rightarrow> (Some x, record_event (Invoked cmdOpts) w))"

text \<open>The function given to \<open>parseYargs\<close>, lines 147 to 177.\<close>

definition parse_completion ::
    "env \<Rightarrow> streams \<Rightarrow> callback_fn \<Rightarrow> parse_outcome \<Rightarrow> world \<Rightarrow> js_error option \<times> world" where
  "parse_completion e options callback po w =
     (case po of
        ParseError err output \<Rightarrow>
          invoke_callback callback None (Some 1)
            (write_stream Err (s_err options)
               (if output \<noteq> [] then output @ newline
                else err_name err @ '': '' @ err_message err @ newline) w)
      | ParseOk argOpts output \<Rightarrow>
          (let w1 = (if output \<noteq> [] then write_stream Out (s_out options) (output @ newline) w else w)
           in if opt_help argOpts \<or> opt_version argOpts then
                invoke_callback callback None (Some 0) w1
              else if length (positional argOpts) \<noteq> 1 then
                invoke_callback callback None (Some 1)
                  (write_stream Err (s_err options)
                     (''Error: Exactly one argument is required.'' @ newline) w1)
              else
                call_modulename e
                  \<lparr>files = positional argOpts,
                   verbosity = int (opt_verbose argOpts) - int (opt_quiet argOpts)\<rparr>
                  callback w1))"

text \<open>
  Lines 86 to 179, entered once \<open>callback\<close> is a function. A failure of the \<open>try\<close>
  block is handed to \<open>process.nextTick\<close>; an exception of \<open>parseYargs\<close> is not caught.
\<close>

datatype retval = RetUndefined | RetPromise

datatype outcome = Throws js_error | Returns retval

definition dispatch ::
    "env \<Rightarrow> args_arg \<Rightarrow> options_arg \<Rightarrow> callback_fn \<Rightarrow> world \<Rightarrow> outcome \<times> world" where
  "dispatch e args options callback w =
     (case validate e args options of
        Inl err \<Rightarrow> (Returns RetUndefined, next_tick (Deliver callback (Some err) None) w)
      | Inr (argv, st) \<Rightarrow>
          (case parseYargs (yargs e) argv (parse_completion e st callback)
                  (record_event (Parsing argv) w) of
             (Some x, w') \<Rightarrow> (Throws x, w')
           | (None, w') \<Rightarrow> (Returns RetUndefined, w')))"

text \<open>Lines 68 to 71: a function in the place of \<open>options\<close> becomes the callback.\<close>

definition callback_after_shift :: "options_arg \<Rightarrow> callback_arg \<Rightarrow> callback_arg" where
  "callback_after_shift options callback =
     (case options of
        OptFunction f \<Rightarrow> if truthy callback then callback else CbFunction f
      | _ \<Rightarrow> callback)"

definition options_after_shift :: "options_arg \<Rightarrow> callback_arg \<Rightarrow> options_arg" where
  "options_after_shift options callback =
     (case options of
        OptFunction f \<Rightarrow> if truthy callback then options else OptNull
      | _ \<Rightarrow> options)"

text \<open>
  The entry point. With no callback and a Promise constructor the function calls itself
  from the executor, with the settling closure as the callback; the constructor turns an
  exception of the executor into a rejection.
\<close>

function modulenameCmd ::
    "env \<Rightarrow> args_arg \<Rightarrow> options_arg \<Rightarrow> callback_arg \<Rightarrow> world \<Rightarrow> outcome \<times> world" where
  "modulenameCmd e args options callback w =
     (if \<not> truthy (callback_after_shift options callback) \<and> promise_defined e then
        (case modulenameCmd e args (options_after_shift options callback) (CbFunction SettleFn)
                (w\<lparr>promise := Some Pending\<rparr>) of
           (Throws x, w') \<Rightarrow> (Returns RetPromise, settle (Rejected x) w')
         | (Returns v, w') \<Rightarrow> (Returns RetPromise, w'))
      else
        (case callback_after_shift options callback of
           CbFunction f \<Rightarrow> dispatch e args (options_after_shift options callback) f w
         | _ \<Rightarrow> (Throws (TypeError ''callback must be a function''), w)))"
  by pat_completeness auto
termination
  by (relation "measure (\<lambda>(e, args, options, callback, w). if truthy callback then 0 else 1)")
     (auto simp: callback_after_shift_def split: options_arg.splits if_splits)

declare modulenameCmd.simps [simp del]

subsection \<open>Later turns\<close>

text \<open>
  The deferred tasks run in order. An exception of a task is uncaught: it ends the
  process, and the tasks behind it do not run.
\<close>

fun run_ticks :: "task list \<Rightarrow> world \<Rightarrow> world" where
  "run_ticks [] w = w"
| "run_ticks (Deliver cb err result # ts) w =
     (case invoke_callback cb err result w of
        (None, w') \<Rightarrow> run_ticks ts w'
      | (Some x, w') \<Rightarrow> record_event (Uncaught x) w')"

definition drain :: "world \<Rightarrow> world" where
  "drain w = run_ticks (ticks w) (w\<lparr>ticks := []\<rparr>)"

text \<open>One invocation in a fresh process, followed to the end of its deferred tasks.\<close>

definition exec :: "env \<Rightarrow> args_arg \<Rightarrow> options_arg \<Rightarrow> callback_arg \<Rightarrow> outcome \<times> world" where
  "exec e args options callback =
     (case modulenameCmd e args options callback init_world of (r, w) \<Rightarrow> (r, drain w))"

subsection \<open>Observations on a trace\<close>

fun invoked_of :: "event \<Rightarrow> call_options list" where
  "invoked_of (Invoked c) = [c]"
| "invoked_of _ = []"

fun signal_of :: "event \<Rightarrow> (js_error option \<times> int option) list" where
  "signal_of (Signal err result) = [(err, result)]"
| "signal_of _ = []"

fun written_of :: "channel \<Rightarrow> event \<Rightarrow> string list" where
  "written_of ch (Wrote ch' i chunk) = (if ch' = ch then [chunk] else [])"
| "written_of ch _ = []"

fun parsed_of :: "event \<Rightarrow> string list list" where
  "parsed_of (Parsing ts) = [ts]"
| "parsed_of _ = []"

definition invocations :: "world \<Rightarrow> call_options list" where
  "invocations w = concat (map invoked_of (trace w))"

definition signals :: "world \<Rightarrow> (js_error option \<times> int option) list" where
  "signals w = concat (map signal_of (trace w))"

definition written :: "channel \<Rightarrow> world \<Rightarrow> string list" where
  "written ch w = concat (map (written_of ch) (trace w))"

definition parsed :: "world \<Rightarrow> string list list" where
  "parsed w = concat (map parsed_of (trace w))"

subsection \<open>The inputs that validation refuses\<close>

text \<open>
  The rules of validation as the specification words them, on the arguments alone: the
  argument value is array-like with at least two entries, or \<open>undefined\<close> or \<open>null\<close>;
  the options, when given, are an object; and each of the three streams, the one the
  options provide or else the one of the process, has the capability of its role
  (\<open>on\<close> for the input, \<open>write\<close> for the output and the error output).
\<close>

fun args_not_array_like :: "args_arg \<Rightarrow> bool" where
  "args_not_array_like ArgsNotObject = True"
| "args_not_array_like ArgsNoLength = True"
| "args_not_array_like _ = False"

fun args_too_short :: "args_arg \<Rightarrow> bool" where
  "args_too_short (ArgsArray xs) = (length xs < 2)"
| "args_too_short _ = False"

fun args_admitted :: "args_arg \<Rightarrow> bool" where
  "args_admitted ArgsUndefined = True"
| "args_admitted ArgsNull = True"
| "args_admitted (ArgsArray xs) = (2 \<le> length xs)"
| "args_admitted _ = False"

fun options_not_object :: "options_arg \<Rightarrow> bool" where
  "options_not_object OptPrimitive = True"
| "options_not_object (OptFunction g) = True"
| "options_not_object _ = False"

fun provided :: "options_arg \<Rightarrow> (command_options \<Rightarrow> stream_val option) \<Rightarrow> stream_val option" where
  "provided (OptObject opts) key = key opts"
| "provided _ key = None"

definition chosen_in :: "env \<Rightarrow> options_arg \<Rightarrow> stream_val" where
  "chosen_in e options =
     (case provided options opt_in of Some v \<Rightarrow> v | None \<Rightarrow> process_stdin e)"

definition chosen_out :: "env \<Rightarrow> options_arg \<Rightarrow> stream_val" where
  "chosen_out e options =
     (case provided options opt_out of Some v \<Rightarrow> v | None \<Rightarrow> process_stdout e)"

definition chosen_err :: "env \<Rightarrow> options_arg \<Rightarrow> stream_val" where
  "chosen_err e options =
     (case provided options opt_err of Some v \<Rightarrow> v | None \<Rightarrow> process_stderr e)"

fun subscribe_capable :: "stream_val \<Rightarrow> bool" where
  "subscribe_capable (SObject s) = on_is_function s"
| "subscribe_capable SFalsy = False"

fun write_capable :: "stream_val \<Rightarrow> bool" where
  "write_capable (SObject s) = write_is_function s"
| "write_capable SFalsy = False"

text \<open>A function in the place of the options.\<close>

fun options_is_function :: "options_arg \<Rightarrow> bool" where
  "options_is_function (OptFunction g) = True"
| "options_is_function _ = False"

subsection \<open>Vocabulary of the proofs\<close>

text \<open>
  The callbacks a parser completion has been called with, kept next to the state of any
  callback: \<open>recording cb\<close> behaves as \<open>cb\<close> and notes the outcome it was given.
\<close>

definition recording ::
    "(parse_outcome \<Rightarrow> 's \<Rightarrow> js_error option \<times> 's) \<Rightarrow>
     parse_outcome \<Rightarrow> parse_outcome list \<times> 's \<Rightarrow> js_error option \<times> parse_outcome list \<times> 's" where
  "recording cb po = (\<lambda>(seen, s). case cb po s of (r, s') \<Rightarrow> (r, (seen @ [po], s')))"

text \<open>What a run of the wrapped function reports to its callback, if anything.\<close>

definition reported :: "wrapped_run \<Rightarrow> (js_error option \<times> int option) option" where
  "reported run =
     (case run of
        ReportsNow err code after \<Rightarrow> Some (err, code)
      | ReportsLater err code \<Rightarrow> Some (err, code)
      | ThrowsOnly x \<Rightarrow> None)"

text \<open>The state in which the closure of lines 76 to 78 leaves a pending Promise.\<close>

definition settled_by :: "js_error option \<times> int option \<Rightarrow> promise_state" where
  "settled_by s = (case fst s of Some x \<Rightarrow> Rejected x | None \<Rightarrow> Resolved (snd s))"

text \<open>
  The relation between a run of the callback style, with the caller's function \<open>g\<close>, and
  the run the executor of the Promise makes: the same events, the same deferred tasks
  up to the callback they deliver to, at most one such task, the Promise settled by the
  first report, and the same outcome as long as nothing was reported.
\<close>

definition retarget :: "task \<Rightarrow> task" where
  "retarget t = (case t of Deliver f err result \<Rightarrow> Deliver SettleFn err result)"

definition mirrors :: "user_fn \<Rightarrow> outcome \<times> world \<Rightarrow> outcome \<times> world \<Rightarrow> bool" where
  "mirrors g c p =
     (trace (snd p) = trace (snd c)
      \<and> ticks (snd p) = map retarget (ticks (snd c))
      \<and> length (ticks (snd c)) \<le> 1
      \<and> promise (snd p) =
          Some (case signals (snd c) of [] \<Rightarrow> Pending | s # ss \<Rightarrow> settled_by s)
      \<and> (signals (snd c) \<noteq> [] \<or> fst p = fst c))"

definition lift :: "js_error option \<times> world \<Rightarrow> outcome \<times> world" where
  "lift r = (case r of (Some x, w) \<Rightarrow> (Throws x, w) | (None, w) \<Rightarrow> (Returns RetUndefined, w))"

subsection \<open>A Node.js process for the examples\<close>

text \<open>
  The three standard streams of a process, a parser and a wrapped function that behave
  the same on every input, and a caller's callback that returns normally.
\<close>

definition std_stream :: "nat \<Rightarrow> stream_val" where
  "std_stream n = SObject \<lparr>sid = n, on_is_function = True, write_is_function = True\<rparr>"

definition fixed_parser :: "yargs_run \<Rightarrow> string list \<Rightarrow> yargs_run" where
  "fixed_parser run args = run"

definition fixed_wrapped :: "wrapped_run \<Rightarrow> call_options \<Rightarrow> wrapped_run" where
  "fixed_wrapped run c = run"

definition node_env :: "(string list \<Rightarrow> yargs_run) \<Rightarrow> (call_options \<Rightarrow> wrapped_run) \<Rightarrow> env" where
  "node_env parser wrapped =
     \<lparr>promise_defined = True,
      process_stdin = std_stream 0,
      process_stdout = std_stream 1,
      process_stderr = std_stream 2,
      yargs = parser,
      modulename = wrapped\<rparr>"

definition std_streams :: streams where
  "std_streams =
     \<lparr>s_in = \<lparr>sid = 0, on_is_function = True, write_is_function = True\<rparr>,
      s_out = \<lparr>sid = 1, on_is_function = True, write_is_function = True\<rparr>,
      s_err = \<lparr>sid = 2, on_is_function = True, write_is_function = True\<rparr>\<rparr>"

definition silent :: user_fn where
  "silent err result = None"

section \<open>Properties\<close>

subsection \<open>The world and its observations\<close>

lemma record_event_sel [simp]:
  "trace (record_event ev w) = trace w @ [ev]"
  "ticks (record_event ev w) = ticks w"
  "promise (record_event ev w) = promise w"
  by (simp_all add: record_event_def)

lemma next_tick_sel [simp]:
  "trace (next_tick t w) = trace w"
  "ticks (next_tick t w) = ticks w @ [t]"
  "promise (next_tick t w) = promise w"
  by (simp_all add: next_tick_def)

lemma settle_sel [simp]:
  "trace (settle st w) = trace w"
  "ticks (settle st w) = ticks w"
  "promise (settle st w) = (if promise w = Some Pending then Some st else promise w)"
  by (simp_all add: settle_def)

lemma write_stream_sel [simp]:
  "trace (write_stream ch s c w) = trace w @ [Wrote ch (sid s) c]"
  "ticks (write_stream ch s c w) = ticks w"
  "promise (write_stream ch s c w) = promise w"
  by (simp_all add: write_stream_def)

lemma init_world_sel [simp]:
  "trace init_world = []" "ticks init_world = []" "promise init_world = None"
  by (simp_all add: init_world_def)

lemma invoke_callback_sel [simp]:
  "trace (snd (invoke_callback f err result w)) = trace w @ [Signal err result]"
  "ticks (snd (invoke_callback f err result w)) = ticks w"
  by (cases f; simp)+

lemma promise_update_commutes:
  "record_event ev (w\<lparr>promise := p\<rparr>) = (record_event ev w)\<lparr>promise := p\<rparr>"
  "write_stream ch s c (w\<lparr>promise := p\<rparr>) = (write_stream ch s c w)\<lparr>promise := p\<rparr>"
  by (simp_all add: record_event_def write_stream_def)

lemma invocations_simps [simp]:
  "invocations (record_event ev w) = invocations w @ invoked_of ev"
  "invocations (next_tick t w) = invocations w"
  "invocations (settle ps w) = invocations w"
  "invocations (write_stream ch s c w) = invocations w"
  "invocations (snd (invoke_callback f err result w)) = invocations w"
  "invocations (w\<lparr>ticks := ts\<rparr>) = invocations w"
  "invocations init_world = []"
  by (simp_all add: invocations_def)

lemma signals_simps [simp]:
  "signals (record_event ev w) = signals w @ signal_of ev"
  "signals (next_tick t w) = signals w"
  "signals (settle ps w) = signals w"
  "signals (write_stream ch s c w) = signals w"
  "signals (snd (invoke_callback f err result w)) = signals w @ [(err, result)]"
  "signals (w\<lparr>ticks := ts\<rparr>) = signals w"
  "signals init_world = []"
  by (simp_all add: signals_def)

lemma written_simps [simp]:
  "written ch (record_event ev w) = written ch w @ written_of ch ev"
  "written ch (next_tick t w) = written ch w"
  "written ch (settle ps w) = written ch w"
  "written ch (write_stream ch' s c w) = written ch w @ (if ch' = ch then [c] else [])"
  "written ch (snd (invoke_callback f err result w)) = written ch w"
  "written ch (w\<lparr>ticks := ts\<rparr>) = written ch w"
  "written ch init_world = []"
  by (simp_all add: written_def)

lemma parsed_simps [simp]:
  "parsed (record_event ev w) = parsed w @ parsed_of ev"
  "parsed (next_tick t w) = parsed w"
  "parsed (settle ps w) = parsed w"
  "parsed (write_stream ch s c w) = parsed w"
  "parsed (snd (invoke_callback f err result w)) = parsed w"
  "parsed (w\<lparr>ticks := ts\<rparr>) = parsed w"
  "parsed init_world = []"
  by (simp_all add: parsed_def)

lemma settled_by_not_pending [simp]: "settled_by s \<noteq> Pending"
  by (simp add: settled_by_def split: option.splits)

subsection \<open>Later turns\<close>

lemma run_ticks_step:
  "run_ticks (Deliver f err result # ts) w =
     (if fst (invoke_callback f err result w) = None
      then run_ticks ts (snd (invoke_callback f err result w))
      else record_event (Uncaught (the (fst (invoke_callback f err result w))))
             (snd (invoke_callback f err result w)))"
  by (auto split: prod.splits option.splits)

lemma run_ticks_unobserved:
  "invocations (run_ticks ts w) = invocations w"
  "written ch (run_ticks ts w) = written ch w"
  "parsed (run_ticks ts w) = parsed w"
proof (induction ts arbitrary: w)
  case Nil
  { case 1 show ?case by simp }
  { case 2 show ?case by simp }
  { case 3 show ?case by simp }
next
  case (Cons t ts)
  { case 1 show ?case by (cases t) (simp add: run_ticks_step Cons.IH del: run_ticks.simps) }
  { case 2 show ?case by (cases t) (simp add: run_ticks_step Cons.IH del: run_ticks.simps) }
  { case 3 show ?case by (cases t) (simp add: run_ticks_step Cons.IH del: run_ticks.simps) }
qed

lemma drain_unobserved [simp]:
  "invocations (drain w) = invocations w"
  "written ch (drain w) = written ch w"
  "parsed (drain w) = parsed w"
  by (simp_all add: drain_def run_ticks_unobserved)

lemma drain_signals_nil: "ticks w = [] \<Longrightarrow> signals (drain w) = signals w"
  by (simp add: drain_def)

lemma drain_signals_single:
  "ticks w = [Deliver f err result] \<Longrightarrow> signals (drain w) = signals w @ [(err, result)]"
  by (simp add: drain_def run_ticks_step del: run_ticks.simps(2))

lemma drain_promise_nil: "ticks w = [] \<Longrightarrow> promise (drain w) = promise w"
  by (simp add: drain_def)

lemma drain_promise_single:
  "ticks w = [Deliver SettleFn err result] \<Longrightarrow>
   promise (drain w) =
     (if promise w = Some Pending then Some (settled_by (err, result)) else promise w)"
  by (simp add: drain_def settled_by_def split: option.splits)

lemma snd_exec:
  "snd (exec e args options callback) = drain (snd (modulenameCmd e args options callback init_world))"
  by (simp add: exec_def case_prod_beta)

lemma fst_exec:
  "fst (exec e args options callback) = fst (modulenameCmd e args options callback init_world)"
  by (simp add: exec_def case_prod_beta)

subsection \<open>The three ways through the entry point\<close>

lemma modulenameCmd_function:
  "modulenameCmd e args options (CbFunction f) w = dispatch e args options f w"
  by (subst modulenameCmd.simps)
     (simp add: callback_after_shift_def options_after_shift_def split: options_arg.splits)

lemma modulenameCmd_callable:
  assumes "callback_after_shift options callback = CbFunction f"
  shows "modulenameCmd e args options callback w =
           dispatch e args (options_after_shift options callback) f w"
  using assms by (subst modulenameCmd.simps) simp

lemma modulenameCmd_not_callable:
  assumes "callback = CbTruthy
           \<or> \<not> truthy (callback_after_shift options callback) \<and> \<not> promise_defined e"
  shows "modulenameCmd e args options callback w =
           (Throws (TypeError ''callback must be a function''), w)"
  using assms
  by (subst modulenameCmd.simps)
     (auto simp: callback_after_shift_def split: options_arg.splits callback_arg.splits)

lemma modulenameCmd_deferred:
  assumes "\<not> truthy (callback_after_shift options callback)" and "promise_defined e"
  shows "modulenameCmd e args options callback w =
     (case dispatch e args options SettleFn (w\<lparr>promise := Some Pending\<rparr>) of
        (Throws x, w') \<Rightarrow> (Returns RetPromise, settle (Rejected x) w')
      | (Returns v, w') \<Rightarrow> (Returns RetPromise, w'))"
proof -
  from assms(1) have "options_after_shift options callback = options"
    by (auto simp: callback_after_shift_def options_after_shift_def
          split: options_arg.splits if_splits)
  with assms show ?thesis
    by (subst modulenameCmd.simps) (simp add: modulenameCmd_function)
qed

subsection \<open>parseYargs and the body of the entry point\<close>

lemma parseYargs_eq:
  "parseYargs parser args cb s =
     (case parser args of
        YargsRun None None \<Rightarrow> (None, s)
      | YargsRun None (Some x) \<Rightarrow> cb (ParseError x []) s
      | YargsRun (Some po) fin \<Rightarrow>
          (case cb po s of (Some y, s') \<Rightarrow> (Some y, s') | (None, s') \<Rightarrow> (fin, s')))"
  by (auto simp: parseYargs_def yargs_parse_def split: prod.splits option.splits yargs_run.splits)

lemma dispatch_invalid:
  assumes "validate e args options = Inl err"
  shows "dispatch e args options f w =
           (Returns RetUndefined, next_tick (Deliver f (Some err) None) w)"
  using assms by (simp add: dispatch_def)

lemma dispatch_lift:
  "dispatch e args options f w =
     (case validate e args options of
        Inl err \<Rightarrow> (Returns RetUndefined, next_tick (Deliver f (Some err) None) w)
      | Inr (argv, st) \<Rightarrow>
          lift (parseYargs (yargs e) argv (parse_completion e st f) (record_event (Parsing argv) w)))"
  by (simp add: dispatch_def lift_def split: sum.splits prod.splits)

lemma snd_dispatch:
  "snd (dispatch e args options f w) =
     (case validate e args options of
        Inl err \<Rightarrow> next_tick (Deliver f (Some err) None) w
      | Inr (argv, st) \<Rightarrow>
          (case yargs e argv of
             YargsRun None None \<Rightarrow> record_event (Parsing argv) w
           | YargsRun None (Some x) \<Rightarrow>
               snd (parse_completion e st f (ParseError x []) (record_event (Parsing argv) w))
           | YargsRun (Some po) fin \<Rightarrow>
               snd (parse_completion e st f po (record_event (Parsing argv) w))))"
  by (simp add: dispatch_def parseYargs_eq
        split: sum.splits prod.splits option.splits yargs_run.splits)

lemma snd_dispatch_ok:
  assumes "validate e args options = Inr (argv, st)"
    and "yargs e argv = YargsRun (Some po) fin"
  shows "snd (dispatch e args options f w) =
           snd (parse_completion e st f po (record_event (Parsing argv) w))"
  using assms by (simp add: snd_dispatch)

lemma snd_dispatch_thrown:
  assumes "validate e args options = Inr (argv, st)"
    and "yargs e argv = YargsRun None (Some x)"
  shows "snd (dispatch e args options f w) =
           snd (parse_completion e st f (ParseError x []) (record_event (Parsing argv) w))"
  using assms by (simp add: snd_dispatch)

lemma call_modulename_obs:
  "invocations (snd (call_modulename e c f w)) = invocations w @ [c]"
  "written ch (snd (call_modulename e c f w)) = written ch w"
  "parsed (snd (call_modulename e c f w)) = parsed w"
  "signals (snd (call_modulename e c f w)) =
     signals w @ (case modulename e c of ReportsNow err code a \<Rightarrow> [(err, code)] | _ \<Rightarrow> [])"
  "ticks (snd (call_modulename e c f w)) =
     ticks w @ (case modulename e c of ReportsLater err code \<Rightarrow> [Deliver f err code] | _ \<Rightarrow> [])"
  by (simp_all add: call_modulename_def prod.case_eq_if option.case_eq_if
        split: wrapped_run.splits)

lemma parse_completion_parsed [simp]:
  "parsed (snd (parse_completion e st f po w)) = parsed w"
  by (simp add: parse_completion_def call_modulename_obs Let_def split: parse_outcome.splits)

lemma dispatch_parsed:
  assumes "validate e args options = Inr (argv, st)"
  shows "parsed (snd (dispatch e args options f w)) = parsed w @ [argv]"
  using assms by (simp add: snd_dispatch split: yargs_run.splits option.splits)

subsection \<open>The callback style and the run of the executor\<close>

lemma invoke_mirrors:
  assumes "signals w = []" and "ticks w = []"
  shows "mirrors g (lift (invoke_callback (UserFn g) err result w))
           (lift (invoke_callback SettleFn err result (w\<lparr>promise := Some Pending\<rparr>)))"
  using assms
  by (simp add: mirrors_def lift_def settle_def settled_by_def split: option.splits)

lemma call_modulename_mirrors:
  assumes "signals w = []" and "ticks w = []"
  shows "mirrors g (lift (call_modulename e c (UserFn g) w))
           (lift (call_modulename e c SettleFn (w\<lparr>promise := Some Pending\<rparr>)))"
proof (cases "modulename e c")
  case (ReportsNow err code after)
  with assms show ?thesis
    by (simp add: call_modulename_def promise_update_commutes mirrors_def lift_def settle_def
          settled_by_def split: option.splits)
next
  case (ReportsLater err code)
  with assms show ?thesis
    by (simp add: call_modulename_def promise_update_commutes mirrors_def lift_def retarget_def)
next
  case (ThrowsOnly x)
  with assms show ?thesis
    by (simp add: call_modulename_def promise_update_commutes mirrors_def lift_def)
qed

lemma completion_mirrors:
  assumes "signals w = []" and "ticks w = []"
  shows "mirrors g (lift (parse_completion e st (UserFn g) po w))
           (lift (parse_completion e st SettleFn po (w\<lparr>promise := Some Pending\<rparr>)))"
proof (cases po)
  case (ParseError x out)
  then show ?thesis
    using assms
    by (simp add: parse_completion_def promise_update_commutes invoke_mirrors
          del: invoke_callback.simps)
next
  case (ParseOk ao out)
  define w1 where "w1 = (if out \<noteq> [] then write_stream Out (s_out st) (out @ newline) w else w)"
  have w1: "signals w1 = []" "ticks w1 = []"
    using assms by (simp_all add: w1_def)
  have p1: "(if out \<noteq> [] then write_stream Out (s_out st) (out @ newline)
                 (w\<lparr>promise := Some Pending\<rparr>) else w\<lparr>promise := Some Pending\<rparr>)
            = w1\<lparr>promise := Some Pending\<rparr>"
    by (simp add: promise_update_commutes w1_def)
  have w2: "signals (write_stream Err (s_err st) c w1) = []"
           "ticks (write_stream Err (s_err st) c w1) = []" for c
    using w1 by simp_all
  show ?thesis
    unfolding ParseOk parse_completion_def parse_outcome.case Let_def p1 w1_def [symmetric]
    using invoke_mirrors [OF w1] invoke_mirrors [OF w2] call_modulename_mirrors [OF w1]
    by (simp add: promise_update_commutes del: invoke_callback.simps)
qed

lemma mirrors_after:
  assumes "mirrors g (lift c) (lift p)"
  shows "mirrors g
           (lift (case c of (Some y, s') \<Rightarrow> (Some y, s') | (None, s') \<Rightarrow> (fin, s')))
           (lift (case p of (Some y, s') \<Rightarrow> (Some y, s') | (None, s') \<Rightarrow> (fin, s')))"
  using assms
  by (cases c; cases p) (auto simp: mirrors_def lift_def split: option.splits)

lemma dispatch_mirrors:
  assumes "signals w = []" and "ticks w = []"
  shows "mirrors g (dispatch e args options (UserFn g) w)
           (dispatch e args options SettleFn (w\<lparr>promise := Some Pending\<rparr>))"
proof (cases "validate e args options")
  case (Inl err)
  with assms show ?thesis
    by (simp add: dispatch_lift mirrors_def retarget_def)
next
  case (Inr p)
  obtain argv st where p: "p = (argv, st)" by (cases p)
  have w1: "signals (record_event (Parsing argv) w) = []"
    "ticks (record_event (Parsing argv) w) = []"
    using assms by simp_all
  obtain c t where run: "yargs e argv = YargsRun c t" by (cases "yargs e argv")
  show ?thesis
  proof (cases c)
    case None
    show ?thesis
    proof (cases t)
      case None
      with \<open>c = None\<close> run Inr p w1 show ?thesis
        by (simp add: dispatch_lift parseYargs_eq mirrors_def lift_def)
    next
      case (Some x)
      with \<open>c = None\<close> run Inr p completion_mirrors [OF w1] show ?thesis
        by (simp add: dispatch_lift parseYargs_eq promise_update_commutes)
    qed
  next
    case (Some po)
    with run Inr p mirrors_after [OF completion_mirrors [OF w1]] show ?thesis
      by (simp add: dispatch_lift parseYargs_eq promise_update_commutes)
  qed
qed

subsection \<open>Validation, by the arguments\<close>

lemma normalize_args_Inl_iff:
  "normalize_args args = Inl err \<longleftrightarrow>
     args_not_array_like args \<and> err = TypeError ''args must be Array-like''
     \<or> args_too_short args \<and> err = RangeError ''args must have at least 2 elements''"
  by (cases args) (auto simp: normalize_args_def)

lemma normalize_args_admitted:
  "(\<exists>argv. normalize_args args = Inr argv) \<longleftrightarrow> args_admitted args"
  by (cases args) (auto simp: normalize_args_def)

lemma check_streams_Inl_iff:
  "check_streams (vin, vout, verr) = Inl err \<longleftrightarrow>
     \<not> subscribe_capable vin \<and> err = TypeError ''options.in must be a stream.Readable''
     \<or> subscribe_capable vin \<and> \<not> write_capable vout
        \<and> err = TypeError ''options.out must be a stream.Writable''
     \<or> subscribe_capable vin \<and> write_capable vout \<and> \<not> write_capable verr
        \<and> err = TypeError ''options.err must be a stream.Writable''"
  by (cases vin; cases vout; cases verr) (auto simp: check_streams_def)

lemma resolve_options_Inl_iff:
  "resolve_options e options = Inl err \<longleftrightarrow>
     options_not_object options \<and> err = TypeError ''options must be an object''
     \<or> \<not> options_not_object options \<and> \<not> subscribe_capable (chosen_in e options)
        \<and> err = TypeError ''options.in must be a stream.Readable''
     \<or> \<not> options_not_object options \<and> subscribe_capable (chosen_in e options)
        \<and> \<not> write_capable (chosen_out e options)
        \<and> err = TypeError ''options.out must be a stream.Writable''
     \<or> \<not> options_not_object options \<and> subscribe_capable (chosen_in e options)
        \<and> write_capable (chosen_out e options) \<and> \<not> write_capable (chosen_err e options)
        \<and> err = TypeError ''options.err must be a stream.Writable''"
proof (cases options)
  case (OptObject opts)
  have a: "assign e opts = (chosen_in e options, chosen_out e options, chosen_err e options)"
    by (simp add: OptObject assign_def chosen_in_def chosen_out_def chosen_err_def
          split: option.splits)
  show ?thesis
    by (simp add: resolve_options_def OptObject a check_streams_Inl_iff
          del: subscribe_capable.simps write_capable.simps)
qed (auto simp: resolve_options_def check_streams_Inl_iff chosen_in_def chosen_out_def
       chosen_err_def)

lemma validate_Inl_iff:
  "validate e args options = Inl err \<longleftrightarrow>
     args_not_array_like args \<and> err = TypeError ''args must be Array-like''
     \<or> args_too_short args \<and> err = RangeError ''args must have at least 2 elements''
     \<or> args_admitted args \<and> options_not_object options
        \<and> err = TypeError ''options must be an object''
     \<or> args_admitted args \<and> \<not> options_not_object options
        \<and> \<not> subscribe_capable (chosen_in e options)
        \<and> err = TypeError ''options.in must be a stream.Readable''
     \<or> args_admitted args \<and> \<not> options_not_object options
        \<and> subscribe_capable (chosen_in e options) \<and> \<not> write_capable (chosen_out e options)
        \<and> err = TypeError ''options.out must be a stream.Writable''
     \<or> args_admitted args \<and> \<not> options_not_object options
        \<and> subscribe_capable (chosen_in e options) \<and> write_capable (chosen_out e options)
        \<and> \<not> write_capable (chosen_err e options)
        \<and> err = TypeError ''options.err must be a stream.Writable''"
proof (cases "normalize_args args")
  case (Inl x)
  then have na: "\<not> args_admitted args"
    using normalize_args_admitted [of args] by auto
  have v: "validate e args options = Inl err \<longleftrightarrow> normalize_args args = Inl err"
    using Inl by (simp add: validate_def)
  show ?thesis
    unfolding v normalize_args_Inl_iff using na by simp
next
  case (Inr argv)
  then have ad: "args_admitted args"
    using normalize_args_admitted [of args] by auto
  have no: "\<not> args_not_array_like args" "\<not> args_too_short args"
    using ad by (cases args; simp)+
  have v: "validate e args options = Inl err \<longleftrightarrow> resolve_options e options = Inl err"
    using Inr by (simp add: validate_def split: sum.splits)
  show ?thesis
    unfolding v resolve_options_Inl_iff using ad no by simp
qed

lemma args_trichotomy:
  "args_not_array_like args \<or> args_too_short args \<or> args_admitted args"
  by (cases args) auto

lemma validate_fails:
  assumes "args_not_array_like args \<or> args_too_short args \<or> options_not_object options
           \<or> \<not> subscribe_capable (chosen_in e options)
           \<or> \<not> write_capable (chosen_out e options)
           \<or> \<not> write_capable (chosen_err e options)"
  shows "\<exists>err. validate e args options = Inl err"
proof -
  consider (a) "args_not_array_like args" | (b) "args_too_short args"
    | (c) "args_admitted args" "options_not_object options"
    | (d) "args_admitted args" "\<not> options_not_object options"
          "\<not> subscribe_capable (chosen_in e options)"
    | (e) "args_admitted args" "\<not> options_not_object options"
          "subscribe_capable (chosen_in e options)" "\<not> write_capable (chosen_out e options)"
    | (f) "args_admitted args" "\<not> options_not_object options"
          "subscribe_capable (chosen_in e options)" "write_capable (chosen_out e options)"
          "\<not> write_capable (chosen_err e options)"
    using assms args_trichotomy [of args] by blast
  then show ?thesis
  proof cases
    case a
    then have "validate e args options = Inl (TypeError ''args must be Array-like'')"
      by (simp add: validate_Inl_iff)
    then show ?thesis ..
  next
    case b
    then have "validate e args options = Inl (RangeError ''args must have at least 2 elements'')"
      by (simp add: validate_Inl_iff)
    then show ?thesis ..
  next
    case c
    then have "validate e args options = Inl (TypeError ''options must be an object'')"
      by (simp add: validate_Inl_iff)
    then show ?thesis ..
  next
    case d
    then have "validate e args options = Inl (TypeError ''options.in must be a stream.Readable'')"
      by (simp add: validate_Inl_iff)
    then show ?thesis ..
  next
    case e
    then have "validate e args options = Inl (TypeError ''options.out must be a stream.Writable'')"
      by (simp add: validate_Inl_iff)
    then show ?thesis ..
  next
    case f
    then have "validate e args options = Inl (TypeError ''options.err must be a stream.Writable'')"
      by (simp add: validate_Inl_iff)
    then show ?thesis ..
  qed
qed

subsection \<open>Exceptions of the entry point\<close>

lemma shift_callable:
  "callback_after_shift options callback = CbFunction f \<longleftrightarrow>
     callback = CbFunction f \<or> \<not> truthy callback \<and> options = OptFunction f"
  by (cases options; cases callback) (auto simp: callback_after_shift_def)

lemma shift_options:
  "callback = CbFunction f \<Longrightarrow> options_after_shift options callback = options"
  "\<not> truthy callback \<Longrightarrow> options = OptFunction f \<Longrightarrow>
   options_after_shift options callback = OptNull"
  by (cases options; simp add: options_after_shift_def)+

lemma shift_falsy:
  "\<not> truthy (callback_after_shift options callback) \<longleftrightarrow>
     \<not> truthy callback \<and> \<not> options_is_function options"
  by (cases options; cases callback) (auto simp: callback_after_shift_def)

lemma fst_call_modulename:
  "modulename e c = ReportsLater err code \<Longrightarrow> fst (call_modulename e c f w) = None"
  "modulename e c = ThrowsOnly y \<Longrightarrow> fst (call_modulename e c f w) = Some y"
  by (simp_all add: call_modulename_def)

lemma parse_completion_signals:
  "signals (snd (parse_completion e st f po w)) =
     signals w @
       (case po of
          ParseError x out \<Rightarrow> [(None, Some 1)]
        | ParseOk ao out \<Rightarrow>
            if opt_help ao \<or> opt_version ao then [(None, Some 0)]
            else if length (positional ao) \<noteq> 1 then [(None, Some 1)]
            else (case modulename e
                         \<lparr>files = positional ao,
                          verbosity = int (opt_verbose ao) - int (opt_quiet ao)\<rparr> of
                    ReportsNow err code a \<Rightarrow> [(err, code)]
                  | _ \<Rightarrow> []))"
  by (simp add: parse_completion_def call_modulename_obs Let_def split: parse_outcome.splits)

lemma fst_dispatch_ok:
  assumes "validate e args options = Inr (argv, st)"
    and "yargs e argv = YargsRun (Some po) fin"
  shows "fst (dispatch e args options f w) =
           (case fst (parse_completion e st f po (record_event (Parsing argv) w)) of
              Some y \<Rightarrow> Throws y
            | None \<Rightarrow> (case fin of Some y \<Rightarrow> Throws y | None \<Rightarrow> Returns RetUndefined))"
  using assms
  by (simp add: dispatch_def parseYargs_eq split: prod.splits option.splits)

lemma fst_dispatch_thrown:
  assumes "validate e args options = Inr (argv, st)"
    and "yargs e argv = YargsRun None t"
  shows "t = None \<Longrightarrow> fst (dispatch e args options f w) = Returns RetUndefined"
  using assms
  by (simp add: dispatch_def parseYargs_eq split: prod.splits option.splits)

text \<open>
  When the body of the entry point throws although the callback has not been called.
\<close>

lemma dispatch_throws_unreported:
  "fst (dispatch e args options f w) = Throws x
     \<and> signals (snd (dispatch e args options f w)) = signals w \<longleftrightarrow>
   (\<exists>argv st ao out.
      validate e args options = Inr (argv, st)
      \<and> completes (yargs e argv) = Some (ParseOk ao out)
      \<and> \<not> opt_help ao \<and> \<not> opt_version ao \<and> length (positional ao) = 1
      \<and> (modulename e \<lparr>files = positional ao,
                         verbosity = int (opt_verbose ao) - int (opt_quiet ao)\<rparr> = ThrowsOnly x
          \<or> (\<exists>err code. modulename e \<lparr>files = positional ao,
                         verbosity = int (opt_verbose ao) - int (opt_quiet ao)\<rparr>
                = ReportsLater err code)
            \<and> throws (yargs e argv) = Some x))"
  (is "?L \<longleftrightarrow> ?R")
proof (cases "validate e args options")
  case (Inl err)
  then show ?thesis by (simp add: dispatch_invalid)
next
  case (Inr p)
  obtain argv st where p: "p = (argv, st)" by (cases p)
  note v = Inr [unfolded p]
  obtain c t where run: "yargs e argv = YargsRun c t" by (cases "yargs e argv")
  show ?thesis
  proof (cases c)
    case None
    note run' = run [unfolded None]
    show ?thesis
    proof (cases t)
      case None
      then show ?thesis
        using v run' by (simp add: fst_dispatch_thrown [OF v run'])
    next
      case (Some y)
      then show ?thesis
        using v run' by (simp add: snd_dispatch parse_completion_signals)
    qed
  next
    case (Some po)
    note run' = run [unfolded Some]
    show ?thesis
    proof (cases po)
      case (ParseError y out)
      then show ?thesis
        using v run'
        by (simp add: snd_dispatch_ok [OF v run'] parse_completion_signals)
    next
      case (ParseOk ao out)
      let ?c = "\<lparr>files = positional ao, verbosity = int (opt_verbose ao) - int (opt_quiet ao)\<rparr>"
      show ?thesis
      proof (cases "\<not> opt_help ao \<and> \<not> opt_version ao \<and> length (positional ao) = 1")
        case False
        then show ?thesis
          using v run' ParseOk
          by (auto simp add: snd_dispatch_ok [OF v run'] parse_completion_signals)
      next
        case True
        have pc: "parse_completion e st f (ParseOk ao out) w' = call_modulename e ?c f
                    (if out \<noteq> [] then write_stream Out (s_out st) (out @ newline) w' else w')"
          for w'
          using True by (simp add: parse_completion_def)
        show ?thesis
        proof (cases "modulename e ?c")
          case (ReportsNow err code a)
          then show ?thesis
            using v run' ParseOk True
            by (simp add: snd_dispatch_ok [OF v run'] parse_completion_signals)
        next
          case (ReportsLater err code)
          then show ?thesis
            using v run' ParseOk True
            by (auto simp add: snd_dispatch_ok [OF v run'] fst_dispatch_ok [OF v run']
                  parse_completion_signals pc fst_call_modulename call_modulename_obs
                  split: option.splits)
        next
          case (ThrowsOnly y)
          then show ?thesis
            using v run' ParseOk True
            by (auto simp add: snd_dispatch_ok [OF v run'] fst_dispatch_ok [OF v run']
                  parse_completion_signals pc fst_call_modulename call_modulename_obs
                  split: option.splits)
        qed
      qed
    qed
  qed
qed


lemma entry_cases:
  obtains (not_callable)
      "callback = CbTruthy
       \<or> \<not> truthy callback \<and> \<not> options_is_function options \<and> \<not> promise_defined e"
    | (deferred)
      "\<not> truthy callback" "\<not> options_is_function options" "promise_defined e"
    | (callable) f where "callback = CbFunction f"
    | (shifted) f where "\<not> truthy callback" "options = OptFunction f"
  by (cases callback; cases options; cases "promise_defined e") auto

section \<open>The claims\<close>

subsection \<open>C1: one positional argument\<close>

text \<open>
  C1. When validation passes and the parser completes without an error, with neither
  \<open>help\<close> nor \<open>version\<close> set and exactly one positional argument, the wrapped function
  is invoked exactly once, with \<open>files\<close> the positional arguments and \<open>verbosity\<close> the
  count of \<open>verbose\<close> minus the count of \<open>quiet\<close> (an integer, possibly negative), and
  the completion callback receives exactly what the wrapped function reports.
\<close>

theorem single_positional_invokes_wrapped:
  assumes "validate e args options = Inr (argv, st)"
    and "yargs e argv = YargsRun (Some (ParseOk ao out)) fin"
    and "\<not> opt_help ao" and "\<not> opt_version ao" and "length (positional ao) = 1"
  shows "invocations (snd (exec e args options (CbFunction f))) =
           [\<lparr>files = positional ao, verbosity = int (opt_verbose ao) - int (opt_quiet ao)\<rparr>]
         \<and> signals (snd (exec e args options (CbFunction f))) =
             (case reported (modulename e
                     \<lparr>files = positional ao,
                      verbosity = int (opt_verbose ao) - int (opt_quiet ao)\<rparr>) of
                Some r \<Rightarrow> [r] | None \<Rightarrow> [])"
proof -
  let ?c = "\<lparr>files = positional ao, verbosity = int (opt_verbose ao) - int (opt_quiet ao)\<rparr>"
  let ?w1 = "if out \<noteq> [] then write_stream Out (s_out st) (out @ newline)
                 (record_event (Parsing argv) init_world)
             else record_event (Parsing argv) init_world"
  let ?w = "snd (call_modulename e ?c f ?w1)"
  have w: "snd (modulenameCmd e args options (CbFunction f) init_world) = ?w"
    using assms by (simp add: modulenameCmd_function snd_dispatch_ok parse_completion_def)
  have ex: "snd (exec e args options (CbFunction f)) = drain ?w"
    using w by (simp add: snd_exec)
  have inv: "invocations (drain ?w) = [?c]"
    by (simp add: call_modulename_obs)
  have "signals (drain ?w) = (case reported (modulename e ?c) of Some r \<Rightarrow> [r] | None \<Rightarrow> [])"
  proof (cases "modulename e ?c")
    case (ReportsNow err code a)
    then have "ticks ?w = []" by (simp add: call_modulename_obs)
    then show ?thesis
      using ReportsNow by (simp add: drain_signals_nil call_modulename_obs reported_def)
  next
    case (ReportsLater err code)
    then have "ticks ?w = [Deliver f err code]" by (simp add: call_modulename_obs)
    then show ?thesis
      using ReportsLater by (simp add: drain_signals_single call_modulename_obs reported_def)
  next
    case (ThrowsOnly x)
    then have "ticks ?w = []" by (simp add: call_modulename_obs)
    then show ?thesis
      using ThrowsOnly by (simp add: drain_signals_nil call_modulename_obs reported_def)
  qed
  with inv ex show ?thesis by simp
qed

text \<open>
  \<open>cmd -v -q -q input.txt\<close>, with a wrapped function that reports the code 0 on a
  later turn: one invocation with verbosity \<open>-1\<close>, and the callback receives
  \<open>(null, 0)\<close>.
\<close>

theorem single_positional_invokes_wrapped_witness:
  "invocations (snd (exec
      (node_env
         (fixed_parser (YargsRun (Some (ParseOk
            \<lparr>opt_help = False, opt_version = False, positional = [''input.txt''],
             opt_verbose = 1, opt_quiet = 2\<rparr> [])) None))
         (fixed_wrapped (ReportsLater None (Some 0))))
      (ArgsArray [JString ''node'', JString ''cmd'', JString ''-vqq'', JString ''input.txt''])
      OptUndefined (CbFunction (UserFn silent)))) =
     [\<lparr>files = [''input.txt''], verbosity = - 1\<rparr>]
   \<and> signals (snd (exec
      (node_env
         (fixed_parser (YargsRun (Some (ParseOk
            \<lparr>opt_help = False, opt_version = False, positional = [''input.txt''],
             opt_verbose = 1, opt_quiet = 2\<rparr> [])) None))
         (fixed_wrapped (ReportsLater None (Some 0))))
      (ArgsArray [JString ''node'', JString ''cmd'', JString ''-vqq'', JString ''input.txt''])
      OptUndefined (CbFunction (UserFn silent)))) =
     [(None, Some 0)]"
proof -
  let ?ao = "\<lparr>opt_help = False, opt_version = False, positional = [''input.txt''],
             opt_verbose = 1, opt_quiet = 2\<rparr>"
  let ?e = "node_env (fixed_parser (YargsRun (Some (ParseOk ?ao [])) None))
              (fixed_wrapped (ReportsLater None (Some 0)))"
  let ?args = "ArgsArray [JString ''node'', JString ''cmd'', JString ''-vqq'', JString ''input.txt'']"
  have v: "validate ?e ?args OptUndefined = Inr ([''-vqq'', ''input.txt''], std_streams)"
    by (simp add: validate_def normalize_args_def resolve_options_def check_streams_def
          node_env_def std_stream_def std_streams_def)
  have y: "yargs ?e [''-vqq'', ''input.txt''] = YargsRun (Some (ParseOk ?ao [])) None"
    by (simp add: node_env_def fixed_parser_def)
  have h: "\<not> opt_help ?ao" "\<not> opt_version ?ao" "length (positional ?ao) = 1"
    by simp_all
  show ?thesis
    using single_positional_invokes_wrapped [OF v y h, of "UserFn silent"]
    by (simp add: node_env_def fixed_wrapped_def reported_def)
qed

subsection \<open>C2: no positional argument, or more than one\<close>

text \<open>
  C2. When validation passes and the parser completes without an error and without a
  terminal flag, but the number of positional arguments is not one, the wrapped function
  is never invoked, the error stream receives exactly one message, and the completion
  callback receives the exit code 1.
\<close>

theorem wrong_positional_count:
  assumes "validate e args options = Inr (argv, st)"
    and "yargs e argv = YargsRun (Some (ParseOk ao out)) fin"
    and "\<not> opt_help ao" and "\<not> opt_version ao" and "length (positional ao) \<noteq> 1"
  shows "invocations (snd (exec e args options (CbFunction f))) = []
         \<and> written Err (snd (exec e args options (CbFunction f))) =
             [''Error: Exactly one argument is required.'' @ newline]
         \<and> signals (snd (exec e args options (CbFunction f))) = [(None, Some 1)]"
  using assms
  by (simp add: snd_exec modulenameCmd_function snd_dispatch_ok parse_completion_def
        drain_signals_nil)

text \<open>The scenario \<open>invoke(["node", "cmd"])\<close>.\<close>

theorem wrong_positional_count_witness:
  "invocations (snd (exec
      (node_env
         (fixed_parser (YargsRun (Some (ParseOk
            \<lparr>opt_help = False, opt_version = False, positional = [],
             opt_verbose = 0, opt_quiet = 0\<rparr> [])) None))
         (fixed_wrapped (ReportsLater None (Some 0))))
      (ArgsArray [JString ''node'', JString ''cmd''])
      OptUndefined (CbFunction (UserFn silent)))) = []
   \<and> written Err (snd (exec
      (node_env
         (fixed_parser (YargsRun (Some (ParseOk
            \<lparr>opt_help = False, opt_version = False, positional = [],
             opt_verbose = 0, opt_quiet = 0\<rparr> [])) None))
         (fixed_wrapped (ReportsLater None (Some 0))))
      (ArgsArray [JString ''node'', JString ''cmd''])
      OptUndefined (CbFunction (UserFn silent)))) =
     [''Error: Exactly one argument is required.'' @ newline]
   \<and> signals (snd (exec
      (node_env
         (fixed_parser (YargsRun (Some (ParseOk
            \<lparr>opt_help = False, opt_version = False, positional = [],
             opt_verbose = 0, opt_quiet = 0\<rparr> [])) None))
         (fixed_wrapped (ReportsLater None (Some 0))))
      (ArgsArray [JString ''node'', JString ''cmd''])
      OptUndefined (CbFunction (UserFn silent)))) = [(None, Some 1)]"
proof -
  let ?ao = "\<lparr>opt_help = False, opt_version = False, positional = [],
             opt_verbose = 0, opt_quiet = 0\<rparr>"
  let ?e = "node_env (fixed_parser (YargsRun (Some (ParseOk ?ao [])) None))
              (fixed_wrapped (ReportsLater None (Some 0)))"
  let ?args = "ArgsArray [JString ''node'', JString ''cmd'']"
  have v: "validate ?e ?args OptUndefined = Inr ([], std_streams)"
    by (simp add: validate_def normalize_args_def resolve_options_def check_streams_def
          node_env_def std_stream_def std_streams_def)
  have y: "yargs ?e [] = YargsRun (Some (ParseOk ?ao [])) None"
    by (simp add: node_env_def fixed_parser_def)
  have h: "\<not> opt_help ?ao" "\<not> opt_version ?ao" "length (positional ?ao) \<noteq> 1"
    by simp_all
  show ?thesis
    using wrong_positional_count [OF v y h, of "UserFn silent"] by simp
qed

subsection \<open>C3: help and version\<close>

text \<open>
  C3. When validation passes and the parser completes without an error and with \<open>help\<close>
  or \<open>version\<close> set, the completion callback receives the exit code 0, the text the
  parser rendered is written to the output stream (nothing is written when the parser
  rendered none), nothing is written to the error stream, and the wrapped function is
  never invoked.
\<close>

theorem terminal_flag_exits_zero:
  assumes "validate e args options = Inr (argv, st)"
    and "yargs e argv = YargsRun (Some (ParseOk ao out)) fin"
    and "opt_help ao \<or> opt_version ao"
  shows "signals (snd (exec e args options (CbFunction f))) = [(None, Some 0)]
         \<and> written Out (snd (exec e args options (CbFunction f))) =
             (if out = [] then [] else [out @ newline])
         \<and> written Err (snd (exec e args options (CbFunction f))) = []
         \<and> invocations (snd (exec e args options (CbFunction f))) = []"
  using assms
  by (simp add: snd_exec modulenameCmd_function snd_dispatch_ok parse_completion_def
        drain_signals_nil)

text \<open>\<open>cmd --version\<close>, for which the parser renders the version string.\<close>

theorem terminal_flag_exits_zero_witness:
  "signals (snd (exec
      (node_env
         (fixed_parser (YargsRun (Some (ParseOk
            \<lparr>opt_help = False, opt_version = True, positional = [],
             opt_verbose = 0, opt_quiet = 0\<rparr> ''git-branch-is 0.1.0'')) None))
         (fixed_wrapped (ReportsLater None (Some 0))))
      (ArgsArray [JString ''node'', JString ''cmd'', JString ''--version''])
      OptUndefined (CbFunction (UserFn silent)))) = [(None, Some 0)]
   \<and> written Out (snd (exec
      (node_env
         (fixed_parser (YargsRun (Some (ParseOk
            \<lparr>opt_help = False, opt_version = True, positional = [],
             opt_verbose = 0, opt_quiet = 0\<rparr> ''git-branch-is 0.1.0'')) None))
         (fixed_wrapped (ReportsLater None (Some 0))))
      (ArgsArray [JString ''node'', JString ''cmd'', JString ''--version''])
      OptUndefined (CbFunction (UserFn silent)))) = [''git-branch-is 0.1.0'' @ newline]
   \<and> invocations (snd (exec
      (node_env
         (fixed_parser (YargsRun (Some (ParseOk
            \<lparr>opt_help = False, opt_version = True, positional = [],
             opt_verbose = 0, opt_quiet = 0\<rparr> ''git-branch-is 0.1.0'')) None))
         (fixed_wrapped (ReportsLater None (Some 0))))
      (ArgsArray [JString ''node'', JString ''cmd'', JString ''--version''])
      OptUndefined (CbFunction (UserFn silent)))) = []"
proof -
  let ?ao = "\<lparr>opt_help = False, opt_version = True, positional = [],
             opt_verbose = 0, opt_quiet = 0\<rparr>"
  let ?e = "node_env (fixed_parser (YargsRun (Some (ParseOk ?ao ''git-branch-is 0.1.0'')) None))
              (fixed_wrapped (ReportsLater None (Some 0)))"
  let ?args = "ArgsArray [JString ''node'', JString ''cmd'', JString ''--version'']"
  have v: "validate ?e ?args OptUndefined = Inr ([''--version''], std_streams)"
    by (simp add: validate_def normalize_args_def resolve_options_def check_streams_def
          node_env_def std_stream_def std_streams_def)
  have y: "yargs ?e [''--version''] = YargsRun (Some (ParseOk ?ao ''git-branch-is 0.1.0'')) None"
    by (simp add: node_env_def fixed_parser_def)
  have h: "opt_help ?ao \<or> opt_version ?ao"
    by simp
  show ?thesis
    using terminal_flag_exits_zero [OF v y h, of "UserFn silent"] by simp
qed

subsection \<open>C4: the completion of the parser fires once\<close>

text \<open>
  C4. Whatever the parser does, \<open>parseYargs\<close> calls the completion at most once, and
  exactly once when the parser throws: when the parser throws before it has called the
  completion, the completion is called with the thrown error as its error argument (and
  what the completion then throws is what \<open>parseYargs\<close> throws); when the parser
  throws after the completion, or the completion itself throws, the error reaches the
  caller of \<open>parseYargs\<close> and the completion is not called again.
\<close>

theorem parseYargs_completion_once:
  "parseYargs parser args (recording cb) ([], s) =
     (case parser args of
        YargsRun None None \<Rightarrow> (None, ([], s))
      | YargsRun None (Some x) \<Rightarrow>
          (fst (cb (ParseError x []) s), ([ParseError x []], snd (cb (ParseError x []) s)))
      | YargsRun (Some po) fin \<Rightarrow>
          (case fst (cb po s) of Some y \<Rightarrow> Some y | None \<Rightarrow> fin, ([po], snd (cb po s))))"
  by (auto simp: parseYargs_eq recording_def split: prod.splits option.splits yargs_run.splits)


subsection \<open>C5: the deferred style\<close>

text \<open>
  C5. When the caller gives no callback (and no function in the place of the options)
  and a Promise constructor exists, the entry point returns a Promise, built by calling
  the entry point again with the same arguments and a settling callback. Compared with
  the callback style run on the same arguments with any function \<open>g\<close> of the caller,
  the Promise is settled by the first report of the callback style: rejected with the
  error it reports, resolved to the exit code it reports. When the callback style throws
  before it has reported anything, the Promise is rejected with the thrown error, and
  when it never reports, the Promise stays pending. Both styles parse the same tokens,
  write the same text and invoke the wrapped function alike.
\<close>

theorem deferred_style_wraps_callback_style:
  assumes "\<not> truthy (callback_after_shift options callback)" and "promise_defined e"
  shows "modulenameCmd e args options callback w =
           (case modulenameCmd e args options (CbFunction SettleFn)
                   (w\<lparr>promise := Some Pending\<rparr>) of
              (Throws x, w') \<Rightarrow> (Returns RetPromise, settle (Rejected x) w')
            | (Returns v, w') \<Rightarrow> (Returns RetPromise, w'))
         \<and> fst (exec e args options callback) = Returns RetPromise
         \<and> promise (snd (exec e args options callback)) =
             Some (case signals (snd (modulenameCmd e args options (CbFunction (UserFn g))
                                        init_world)) of
                     s # ss \<Rightarrow> settled_by s
                   | [] \<Rightarrow>
                      (case fst (modulenameCmd e args options (CbFunction (UserFn g))
                                   init_world) of
                         Throws x \<Rightarrow> Rejected x
                       | Returns v \<Rightarrow>
                           (case signals (snd (exec e args options (CbFunction (UserFn g)))) of
                              s # ss \<Rightarrow> settled_by s
                            | [] \<Rightarrow> Pending)))
         \<and> written ch (snd (exec e args options callback)) =
             written ch (snd (exec e args options (CbFunction (UserFn g))))
         \<and> invocations (snd (exec e args options callback)) =
             invocations (snd (exec e args options (CbFunction (UserFn g))))
         \<and> parsed (snd (exec e args options callback)) =
             parsed (snd (exec e args options (CbFunction (UserFn g))))"
proof -
  obtain rc wc where c: "dispatch e args options (UserFn g) init_world = (rc, wc)"
    by (cases "dispatch e args options (UserFn g) init_world")
  obtain rp wp where p:
    "dispatch e args options SettleFn (init_world\<lparr>promise := Some Pending\<rparr>) = (rp, wp)"
    by (cases "dispatch e args options SettleFn (init_world\<lparr>promise := Some Pending\<rparr>)")
  have m: "mirrors g (rc, wc) (rp, wp)"
    using dispatch_mirrors [of init_world g e args options] by (simp add: c p)
  define wq where "wq = (case rp of Throws x \<Rightarrow> settle (Rejected x) wp | Returns v \<Rightarrow> wp)"
  have d: "modulenameCmd e args options callback init_world = (Returns RetPromise, wq)"
    using assms by (simp add: modulenameCmd_deferred p wq_def split: outcome.splits)
  have tr: "trace wq = trace wc" and ti: "ticks wq = map retarget (ticks wc)"
    using m by (simp_all add: mirrors_def wq_def split: outcome.splits)
  have obs: "written ch wq = written ch wc" "invocations wq = invocations wc"
    "parsed wq = parsed wc"
    using tr by (simp_all add: written_def invocations_def parsed_def)
  have pq: "promise wq =
      Some (case signals wc of
              s # ss \<Rightarrow> settled_by s
            | [] \<Rightarrow> (case rc of Throws x \<Rightarrow> Rejected x | Returns v \<Rightarrow> Pending))"
    using m by (auto simp: mirrors_def wq_def split: outcome.splits list.splits)
  have len: "length (ticks wc) \<le> 1"
    using m by (simp add: mirrors_def)
  have fin: "promise (drain wq) =
      Some (case signals wc of
              s # ss \<Rightarrow> settled_by s
            | [] \<Rightarrow>
               (case rc of
                  Throws x \<Rightarrow> Rejected x
                | Returns v \<Rightarrow>
                    (case signals (drain wc) of s # ss \<Rightarrow> settled_by s | [] \<Rightarrow> Pending)))"
  proof (cases "ticks wc")
    case Nil
    then show ?thesis
      using ti pq
      by (simp add: drain_promise_nil drain_signals_nil split: list.splits outcome.splits)
  next
    case (Cons t ts)
    with len have ts: "ts = []" by simp
    obtain f err result where t: "t = Deliver f err result" by (cases t)
    have "ticks wq = [Deliver SettleFn err result]"
      using ti Cons ts t by (simp add: retarget_def)
    moreover have "signals (drain wc) = signals wc @ [(err, result)]"
      using Cons ts t by (simp add: drain_signals_single)
    ultimately show ?thesis
      using pq by (simp add: drain_promise_single split: list.splits outcome.splits)
  qed
  have re: "modulenameCmd e args options callback w =
           (case modulenameCmd e args options (CbFunction SettleFn)
                   (w\<lparr>promise := Some Pending\<rparr>) of
              (Throws x, w') \<Rightarrow> (Returns RetPromise, settle (Rejected x) w')
            | (Returns v, w') \<Rightarrow> (Returns RetPromise, w'))"
    using assms by (simp add: modulenameCmd_deferred modulenameCmd_function)
  have r: "fst (exec e args options callback) = Returns RetPromise"
    by (simp add: fst_exec d)
  have exq: "snd (exec e args options callback) = drain wq"
    by (simp add: snd_exec d)
  have cb: "modulenameCmd e args options (CbFunction (UserFn g)) init_world = (rc, wc)"
    by (simp add: modulenameCmd_function c)
  have exc: "snd (exec e args options (CbFunction (UserFn g))) = drain wc"
    by (simp add: snd_exec modulenameCmd_function c)
  show ?thesis
    unfolding exq exc cb fst_conv snd_conv using re r fin obs by simp
qed

text \<open>
  \<open>cmd input.txt\<close> without a callback: the callback style hears \<open>(null, 0)\<close> on a
  later turn, and the Promise is resolved to 0.
\<close>

theorem deferred_style_wraps_callback_style_witness:
  "fst (exec
      (node_env
         (fixed_parser (YargsRun (Some (ParseOk
            \<lparr>opt_help = False, opt_version = False, positional = [''input.txt''],
             opt_verbose = 0, opt_quiet = 0\<rparr> [])) None))
         (fixed_wrapped (ReportsLater None (Some 0))))
      (ArgsArray [JString ''node'', JString ''cmd'', JString ''input.txt''])
      OptUndefined CbUndefined) = Returns RetPromise
   \<and> promise (snd (exec
      (node_env
         (fixed_parser (YargsRun (Some (ParseOk
            \<lparr>opt_help = False, opt_version = False, positional = [''input.txt''],
             opt_verbose = 0, opt_quiet = 0\<rparr> [])) None))
         (fixed_wrapped (ReportsLater None (Some 0))))
      (ArgsArray [JString ''node'', JString ''cmd'', JString ''input.txt''])
      OptUndefined CbUndefined)) = Some (Resolved (Some 0))"
proof -
  let ?ao = "\<lparr>opt_help = False, opt_version = False, positional = [''input.txt''],
             opt_verbose = 0, opt_quiet = 0\<rparr>"
  let ?e = "node_env (fixed_parser (YargsRun (Some (ParseOk ?ao [])) None))
              (fixed_wrapped (ReportsLater None (Some 0)))"
  let ?args = "ArgsArray [JString ''node'', JString ''cmd'', JString ''input.txt'']"
  have h: "\<not> truthy (callback_after_shift OptUndefined CbUndefined)" "promise_defined ?e"
    by (simp_all add: callback_after_shift_def node_env_def)
  have v: "validate ?e ?args OptUndefined = Inr ([''input.txt''], std_streams)"
    by (simp add: validate_def normalize_args_def resolve_options_def check_streams_def
          node_env_def std_stream_def std_streams_def)
  have y: "yargs ?e [''input.txt''] = YargsRun (Some (ParseOk ?ao [])) None"
    "modulename ?e \<lparr>files = [''input.txt''], verbosity = 0\<rparr> = ReportsLater None (Some 0)"
    by (simp_all add: node_env_def fixed_parser_def fixed_wrapped_def)
  have c: "modulenameCmd ?e ?args OptUndefined (CbFunction (UserFn silent)) init_world =
      (Returns RetUndefined,
       next_tick (Deliver (UserFn silent) None (Some 0))
         (record_event (Invoked \<lparr>files = [''input.txt''], verbosity = 0\<rparr>)
            (record_event (Parsing [''input.txt'']) init_world)))"
    by (simp add: modulenameCmd_function dispatch_def v y parseYargs_eq parse_completion_def
          call_modulename_def)
  have s: "signals (snd (exec ?e ?args OptUndefined (CbFunction (UserFn silent)))) =
      [(None, Some 0)]"
    by (simp add: snd_exec c drain_signals_single)
  show ?thesis
    using deferred_style_wraps_callback_style [OF h, of ?args init_world silent Out]
    unfolding c s fst_conv snd_conv
    by (simp add: settled_by_def)
qed

subsection \<open>C6: a parse error\<close>

text \<open>
  C6. When validation passes and the parse fails (the parser hands an error to its
  completion, or throws before it has called it), the error stream receives the rendered
  text if there is one and otherwise the name and the message of the error, the
  completion callback receives the exit code 1, and the wrapped function is never
  invoked.
\<close>

theorem parse_failure_exits_one:
  assumes "validate e args options = Inr (argv, st)"
    and "yargs e argv = YargsRun (Some (ParseError x out)) fin
         \<or> yargs e argv = YargsRun None (Some x) \<and> out = []"
  shows "written Err (snd (exec e args options (CbFunction f))) =
           [if out \<noteq> [] then out @ newline else err_name x @ '': '' @ err_message x @ newline]
         \<and> written Out (snd (exec e args options (CbFunction f))) = []
         \<and> signals (snd (exec e args options (CbFunction f))) = [(None, Some 1)]
         \<and> invocations (snd (exec e args options (CbFunction f))) = []"
  using assms
  by (auto simp add: snd_exec modulenameCmd_function snd_dispatch_ok snd_dispatch_thrown
        parse_completion_def drain_signals_nil)

text \<open>The scenario \<open>invoke(["node", "cmd", "--bogus", "x"])\<close>, with no rendered text.\<close>

theorem parse_failure_exits_one_witness:
  "written Err (snd (exec
      (node_env
         (fixed_parser (YargsRun (Some (ParseError
            (OtherError ''YError'' ''Unknown argument: bogus'') [])) None))
         (fixed_wrapped (ReportsLater None (Some 0))))
      (ArgsArray [JString ''node'', JString ''cmd'', JString ''--bogus'', JString ''x''])
      OptUndefined (CbFunction (UserFn silent)))) =
     [''YError: Unknown argument: bogus'' @ newline]
   \<and> signals (snd (exec
      (node_env
         (fixed_parser (YargsRun (Some (ParseError
            (OtherError ''YError'' ''Unknown argument: bogus'') [])) None))
         (fixed_wrapped (ReportsLater None (Some 0))))
      (ArgsArray [JString ''node'', JString ''cmd'', JString ''--bogus'', JString ''x''])
      OptUndefined (CbFunction (UserFn silent)))) = [(None, Some 1)]
   \<and> invocations (snd (exec
      (node_env
         (fixed_parser (YargsRun (Some (ParseError
            (OtherError ''YError'' ''Unknown argument: bogus'') [])) None))
         (fixed_wrapped (ReportsLater None (Some 0))))
      (ArgsArray [JString ''node'', JString ''cmd'', JString ''--bogus'', JString ''x''])
      OptUndefined (CbFunction (UserFn silent)))) = []"
proof -
  let ?x = "OtherError ''YError'' ''Unknown argument: bogus''"
  let ?e = "node_env (fixed_parser (YargsRun (Some (ParseError ?x [])) None))
              (fixed_wrapped (ReportsLater None (Some 0)))"
  let ?args = "ArgsArray [JString ''node'', JString ''cmd'', JString ''--bogus'', JString ''x'']"
  have v: "validate ?e ?args OptUndefined = Inr ([''--bogus'', ''x''], std_streams)"
    by (simp add: validate_def normalize_args_def resolve_options_def check_streams_def
          node_env_def std_stream_def std_streams_def)
  have y: "yargs ?e [''--bogus'', ''x''] = YargsRun (Some (ParseError ?x [])) None
           \<or> yargs ?e [''--bogus'', ''x''] = YargsRun None (Some ?x) \<and> ([]::string) = []"
    by (simp add: node_env_def fixed_parser_def)
  show ?thesis
    using parse_failure_exits_one [OF v y, of "UserFn silent"] by simp
qed

subsection \<open>C7: the argument array\<close>

text \<open>
  C7. \<open>undefined\<close> and \<open>null\<close> in the place of the argument array are taken as the
  empty list of tokens: validation does not fail on them, the parser is given no token,
  and with no positional argument found the run ends with the message that exactly one
  argument is required and the exit code 1. An array of fewer than two entries fails
  validation: nothing is parsed and the completion callback receives the RangeError. Of
  an array of two entries or more, the parser is given the entries after the second,
  each turned into a string.
\<close>

theorem args_normalization:
  "normalize_args ArgsUndefined = Inr [] \<and> normalize_args ArgsNull = Inr []
   \<and> ((args = ArgsUndefined \<or> args = ArgsNull) \<and> resolve_options e options = Inr st
        \<and> yargs e [] = YargsRun (Some (ParseOk ao out)) fin
        \<and> positional ao = [] \<and> \<not> opt_help ao \<and> \<not> opt_version ao \<longrightarrow>
        parsed (snd (exec e args options (CbFunction f))) = [[]]
        \<and> written Err (snd (exec e args options (CbFunction f))) =
            [''Error: Exactly one argument is required.'' @ newline]
        \<and> signals (snd (exec e args options (CbFunction f))) = [(None, Some 1)])
   \<and> (length xs < 2 \<longrightarrow>
        fst (exec e (ArgsArray xs) options (CbFunction f)) = Returns RetUndefined
        \<and> parsed (snd (exec e (ArgsArray xs) options (CbFunction f))) = []
        \<and> signals (snd (exec e (ArgsArray xs) options (CbFunction f))) =
            [(Some (RangeError ''args must have at least 2 elements''), None)])
   \<and> (2 \<le> length xs \<and> resolve_options e options = Inr st \<longrightarrow>
        parsed (snd (exec e (ArgsArray xs) options (CbFunction f))) =
          [map String_js (drop 2 xs)])"
proof (intro conjI impI)
  show "normalize_args ArgsUndefined = Inr []" "normalize_args ArgsNull = Inr []"
    by (simp_all add: normalize_args_def)
next
  assume a: "(args = ArgsUndefined \<or> args = ArgsNull) \<and> resolve_options e options = Inr st
        \<and> yargs e [] = YargsRun (Some (ParseOk ao out)) fin
        \<and> positional ao = [] \<and> \<not> opt_help ao \<and> \<not> opt_version ao"
  then have v: "validate e args options = Inr ([], st)"
    by (auto simp: validate_def normalize_args_def)
  from a show "parsed (snd (exec e args options (CbFunction f))) = [[]]"
    by (simp add: snd_exec modulenameCmd_function dispatch_parsed [OF v])
  from a show "written Err (snd (exec e args options (CbFunction f))) =
            [''Error: Exactly one argument is required.'' @ newline]"
    by (simp add: snd_exec modulenameCmd_function snd_dispatch_ok [OF v] parse_completion_def)
  from a show "signals (snd (exec e args options (CbFunction f))) = [(None, Some 1)]"
    by (simp add: snd_exec modulenameCmd_function snd_dispatch_ok [OF v] parse_completion_def
          drain_signals_nil)
next
  assume "length xs < 2"
  then have v: "validate e (ArgsArray xs) options =
      Inl (RangeError ''args must have at least 2 elements'')"
    by (simp add: validate_def normalize_args_def)
  show "fst (exec e (ArgsArray xs) options (CbFunction f)) = Returns RetUndefined"
    by (simp add: fst_exec modulenameCmd_function dispatch_invalid [OF v])
  show "parsed (snd (exec e (ArgsArray xs) options (CbFunction f))) = []"
    by (simp add: snd_exec modulenameCmd_function dispatch_invalid [OF v])
  show "signals (snd (exec e (ArgsArray xs) options (CbFunction f))) =
            [(Some (RangeError ''args must have at least 2 elements''), None)]"
    by (simp add: snd_exec modulenameCmd_function dispatch_invalid [OF v] drain_signals_single)
next
  assume a: "2 \<le> length xs \<and> resolve_options e options = Inr st"
  then have v: "validate e (ArgsArray xs) options = Inr (map String_js (drop 2 xs), st)"
    by (simp add: validate_def normalize_args_def)
  show "parsed (snd (exec e (ArgsArray xs) options (CbFunction f))) =
          [map String_js (drop 2 xs)]"
    by (simp add: snd_exec modulenameCmd_function dispatch_parsed [OF v])
qed

text \<open>
  \<open>invoke(null, cb)\<close> reaches the parser with no token and ends with the exit code 1;
  \<open>invoke(["node"], cb)\<close> ends with the RangeError; of \<open>["node", "cmd", true, "x"]\<close>
  the parser is given \<open>["true", "x"]\<close>.
\<close>

theorem args_normalization_witness:
  "parsed (snd (exec
      (node_env
         (fixed_parser (YargsRun (Some (ParseOk
            \<lparr>opt_help = False, opt_version = False, positional = [],
             opt_verbose = 0, opt_quiet = 0\<rparr> [])) None))
         (fixed_wrapped (ReportsLater None (Some 0))))
      ArgsNull OptUndefined (CbFunction (UserFn silent)))) = [[]]
   \<and> signals (snd (exec
      (node_env
         (fixed_parser (YargsRun (Some (ParseOk
            \<lparr>opt_help = False, opt_version = False, positional = [],
             opt_verbose = 0, opt_quiet = 0\<rparr> [])) None))
         (fixed_wrapped (ReportsLater None (Some 0))))
      ArgsNull OptUndefined (CbFunction (UserFn silent)))) = [(None, Some 1)]
   \<and> signals (snd (exec
      (node_env
         (fixed_parser (YargsRun (Some (ParseOk
            \<lparr>opt_help = False, opt_version = False, positional = [],
             opt_verbose = 0, opt_quiet = 0\<rparr> [])) None))
         (fixed_wrapped (ReportsLater None (Some 0))))
      (ArgsArray [JString ''node'']) OptUndefined (CbFunction (UserFn silent)))) =
     [(Some (RangeError ''args must have at least 2 elements''), None)]
   \<and> parsed (snd (exec
      (node_env
         (fixed_parser (YargsRun (Some (ParseOk
            \<lparr>opt_help = False, opt_version = False, positional = [],
             opt_verbose = 0, opt_quiet = 0\<rparr> [])) None))
         (fixed_wrapped (ReportsLater None (Some 0))))
      (ArgsArray [JString ''node'', JString ''cmd'', JBool True, JString ''x''])
      OptUndefined (CbFunction (UserFn silent)))) = [[''true'', ''x'']]"
proof -
  let ?ao = "\<lparr>opt_help = False, opt_version = False, positional = [],
             opt_verbose = 0, opt_quiet = 0\<rparr>"
  let ?e = "node_env (fixed_parser (YargsRun (Some (ParseOk ?ao [])) None))
              (fixed_wrapped (ReportsLater None (Some 0)))"
  have r: "resolve_options ?e OptUndefined = Inr std_streams"
    by (simp add: resolve_options_def check_streams_def node_env_def std_stream_def
          std_streams_def)
  have y: "yargs ?e [] = YargsRun (Some (ParseOk ?ao [])) None"
    by (simp add: node_env_def fixed_parser_def)
  show ?thesis
    using args_normalization [of ArgsNull ?e OptUndefined std_streams ?ao "[]" None
            "UserFn silent" "[JString ''node'']"]
          args_normalization [of ArgsNull ?e OptUndefined std_streams ?ao "[]" None
            "UserFn silent" "[JString ''node'', JString ''cmd'', JBool True, JString ''x'']"]
          r y
    by simp
qed

subsection \<open>C8: validation failures arrive on a later turn\<close>

text \<open>
  C8. When the callback is a function, every validation failure is delivered through the
  callback on the next turn and is never thrown: an argument value that is not
  array-like, an array of fewer than two entries, options that are not an object, an
  input stream without \<open>on\<close>, an output or error stream without \<open>write\<close>. The call
  returns \<open>undefined\<close> without calling the callback; it leaves one deferred task, which
  calls the callback with the error of the first check that fails, in the order just
  given. Whatever the failure, nothing is parsed, written or invoked.
\<close>

theorem validation_failure_deferred:
  "(args_not_array_like args \<and> err = TypeError ''args must be Array-like''
     \<or> args_too_short args \<and> err = RangeError ''args must have at least 2 elements''
     \<or> args_admitted args \<and> options_not_object options
        \<and> err = TypeError ''options must be an object''
     \<or> args_admitted args \<and> \<not> options_not_object options
        \<and> \<not> subscribe_capable (chosen_in e options)
        \<and> err = TypeError ''options.in must be a stream.Readable''
     \<or> args_admitted args \<and> \<not> options_not_object options
        \<and> subscribe_capable (chosen_in e options) \<and> \<not> write_capable (chosen_out e options)
        \<and> err = TypeError ''options.out must be a stream.Writable''
     \<or> args_admitted args \<and> \<not> options_not_object options
        \<and> subscribe_capable (chosen_in e options) \<and> write_capable (chosen_out e options)
        \<and> \<not> write_capable (chosen_err e options)
        \<and> err = TypeError ''options.err must be a stream.Writable'' \<longrightarrow>
      modulenameCmd e args options (CbFunction f) w =
        (Returns RetUndefined, next_tick (Deliver f (Some err) None) w)
      \<and> signals (snd (modulenameCmd e args options (CbFunction f) w)) = signals w
      \<and> fst (exec e args options (CbFunction f)) = Returns RetUndefined
      \<and> signals (snd (exec e args options (CbFunction f))) = [(Some err, None)])
   \<and> (args_not_array_like args \<or> args_too_short args \<or> options_not_object options
        \<or> \<not> subscribe_capable (chosen_in e options)
        \<or> \<not> write_capable (chosen_out e options)
        \<or> \<not> write_capable (chosen_err e options) \<longrightarrow>
      fst (exec e args options (CbFunction f)) = Returns RetUndefined
      \<and> signals (snd (modulenameCmd e args options (CbFunction f) init_world)) = []
      \<and> (\<exists>x. signals (snd (exec e args options (CbFunction f))) = [(Some x, None)])
      \<and> parsed (snd (exec e args options (CbFunction f))) = []
      \<and> written Out (snd (exec e args options (CbFunction f))) = []
      \<and> written Err (snd (exec e args options (CbFunction f))) = []
      \<and> invocations (snd (exec e args options (CbFunction f))) = [])"
proof (intro conjI impI)
  assume "args_not_array_like args \<and> err = TypeError ''args must be Array-like''
     \<or> args_too_short args \<and> err = RangeError ''args must have at least 2 elements''
     \<or> args_admitted args \<and> options_not_object options
        \<and> err = TypeError ''options must be an object''
     \<or> args_admitted args \<and> \<not> options_not_object options
        \<and> \<not> subscribe_capable (chosen_in e options)
        \<and> err = TypeError ''options.in must be a stream.Readable''
     \<or> args_admitted args \<and> \<not> options_not_object options
        \<and> subscribe_capable (chosen_in e options) \<and> \<not> write_capable (chosen_out e options)
        \<and> err = TypeError ''options.out must be a stream.Writable''
     \<or> args_admitted args \<and> \<not> options_not_object options
        \<and> subscribe_capable (chosen_in e options) \<and> write_capable (chosen_out e options)
        \<and> \<not> write_capable (chosen_err e options)
        \<and> err = TypeError ''options.err must be a stream.Writable''"
  then have v: "validate e args options = Inl err"
    by (simp only: validate_Inl_iff)
  show "modulenameCmd e args options (CbFunction f) w =
        (Returns RetUndefined, next_tick (Deliver f (Some err) None) w)"
    by (simp add: modulenameCmd_function dispatch_invalid [OF v])
  show "signals (snd (modulenameCmd e args options (CbFunction f) w)) = signals w"
    by (simp add: modulenameCmd_function dispatch_invalid [OF v])
  show "fst (exec e args options (CbFunction f)) = Returns RetUndefined"
    by (simp add: fst_exec modulenameCmd_function dispatch_invalid [OF v])
  show "signals (snd (exec e args options (CbFunction f))) = [(Some err, None)]"
    by (simp add: snd_exec modulenameCmd_function dispatch_invalid [OF v] drain_signals_single)
next
  assume "args_not_array_like args \<or> args_too_short args \<or> options_not_object options
        \<or> \<not> subscribe_capable (chosen_in e options)
        \<or> \<not> write_capable (chosen_out e options)
        \<or> \<not> write_capable (chosen_err e options)"
  then obtain x where v: "validate e args options = Inl x"
    using validate_fails by blast
  show "fst (exec e args options (CbFunction f)) = Returns RetUndefined"
    by (simp add: fst_exec modulenameCmd_function dispatch_invalid [OF v])
  show "signals (snd (modulenameCmd e args options (CbFunction f) init_world)) = []"
    by (simp add: modulenameCmd_function dispatch_invalid [OF v])
  show "\<exists>x. signals (snd (exec e args options (CbFunction f))) = [(Some x, None)]"
    by (simp add: snd_exec modulenameCmd_function dispatch_invalid [OF v] drain_signals_single)
  show "parsed (snd (exec e args options (CbFunction f))) = []"
    by (simp add: snd_exec modulenameCmd_function dispatch_invalid [OF v])
  show "written Out (snd (exec e args options (CbFunction f))) = []"
    by (simp add: snd_exec modulenameCmd_function dispatch_invalid [OF v])
  show "written Err (snd (exec e args options (CbFunction f))) = []"
    by (simp add: snd_exec modulenameCmd_function dispatch_invalid [OF v])
  show "invocations (snd (exec e args options (CbFunction f))) = []"
    by (simp add: snd_exec modulenameCmd_function dispatch_invalid [OF v])
qed

text \<open>
  One input for each kind of failure, and the options \<open>{out: undefined}\<close> once more for
  the outcome of the call itself.
\<close>

theorem validation_failure_deferred_witness:
  "signals (snd (exec
      (node_env (fixed_parser (YargsRun None None)) (fixed_wrapped (ReportsLater None (Some 0))))
      ArgsNotObject OptUndefined (CbFunction (UserFn silent)))) =
     [(Some (TypeError ''args must be Array-like''), None)]
   \<and> signals (snd (exec
      (node_env (fixed_parser (YargsRun None None)) (fixed_wrapped (ReportsLater None (Some 0))))
      (ArgsArray [JString ''node''])
      OptUndefined (CbFunction (UserFn silent)))) =
     [(Some (RangeError ''args must have at least 2 elements''), None)]
   \<and> signals (snd (exec
      (node_env (fixed_parser (YargsRun None None)) (fixed_wrapped (ReportsLater None (Some 0))))
      (ArgsArray [JString ''node'', JString ''cmd'', JString ''x''])
      OptPrimitive (CbFunction (UserFn silent)))) =
     [(Some (TypeError ''options must be an object''), None)]
   \<and> signals (snd (exec
      (node_env (fixed_parser (YargsRun None None)) (fixed_wrapped (ReportsLater None (Some 0))))
      (ArgsArray [JString ''node'', JString ''cmd'', JString ''x''])
      (OptObject \<lparr>opt_in = Some (SObject \<lparr>sid = 7, on_is_function = False,
                                             write_is_function = True\<rparr>),
                  opt_out = None, opt_err = None\<rparr>)
      (CbFunction (UserFn silent)))) =
     [(Some (TypeError ''options.in must be a stream.Readable''), None)]
   \<and> signals (snd (exec
      (node_env (fixed_parser (YargsRun None None)) (fixed_wrapped (ReportsLater None (Some 0))))
      (ArgsArray [JString ''node'', JString ''cmd'', JString ''x''])
      (OptObject \<lparr>opt_in = None, opt_out = Some SFalsy, opt_err = None\<rparr>)
      (CbFunction (UserFn silent)))) =
     [(Some (TypeError ''options.out must be a stream.Writable''), None)]
   \<and> signals (snd (exec
      (node_env (fixed_parser (YargsRun None None)) (fixed_wrapped (ReportsLater None (Some 0))))
      (ArgsArray [JString ''node'', JString ''cmd'', JString ''x''])
      (OptObject \<lparr>opt_in = None, opt_out = None,
                  opt_err = Some (SObject \<lparr>sid = 9, on_is_function = True,
                                              write_is_function = False\<rparr>)\<rparr>)
      (CbFunction (UserFn silent)))) =
     [(Some (TypeError ''options.err must be a stream.Writable''), None)]
   \<and> fst (exec
      (node_env (fixed_parser (YargsRun None None)) (fixed_wrapped (ReportsLater None (Some 0))))
      (ArgsArray [JString ''node'', JString ''cmd'', JString ''x''])
      (OptObject \<lparr>opt_in = None, opt_out = Some SFalsy, opt_err = None\<rparr>)
      (CbFunction (UserFn silent))) = Returns RetUndefined
   \<and> signals (snd (modulenameCmd
      (node_env (fixed_parser (YargsRun None None)) (fixed_wrapped (ReportsLater None (Some 0))))
      (ArgsArray [JString ''node'', JString ''cmd'', JString ''x''])
      (OptObject \<lparr>opt_in = None, opt_out = Some SFalsy, opt_err = None\<rparr>)
      (CbFunction (UserFn silent)) init_world)) = []"
proof -
  let ?e = "node_env (fixed_parser (YargsRun None None))
              (fixed_wrapped (ReportsLater None (Some 0)))"
  let ?args = "ArgsArray [JString ''node'', JString ''cmd'', JString ''x'']"
  let ?f = "UserFn silent"
  let ?o4 = "OptObject \<lparr>opt_in = Some (SObject \<lparr>sid = 7, on_is_function = False,
                                             write_is_function = True\<rparr>),
                  opt_out = None, opt_err = None\<rparr>"
  let ?o5 = "OptObject \<lparr>opt_in = None, opt_out = Some SFalsy, opt_err = None\<rparr>"
  let ?o6 = "OptObject \<lparr>opt_in = None, opt_out = None,
                  opt_err = Some (SObject \<lparr>sid = 9, on_is_function = True,
                                              write_is_function = False\<rparr>)\<rparr>"
  note d = chosen_in_def chosen_out_def chosen_err_def node_env_def std_stream_def
  note ordered = validation_failure_deferred [THEN conjunct1, THEN mp]
  note any = validation_failure_deferred [THEN conjunct2, THEN mp]
  have 1: "signals (snd (exec ?e ArgsNotObject OptUndefined (CbFunction ?f))) =
      [(Some (TypeError ''args must be Array-like''), None)]"
    by (rule ordered [of ArgsNotObject _ OptUndefined ?e ?f init_world,
          THEN conjunct2, THEN conjunct2, THEN conjunct2]) simp
  have 2: "signals (snd (exec ?e (ArgsArray [JString ''node'']) OptUndefined (CbFunction ?f))) =
      [(Some (RangeError ''args must have at least 2 elements''), None)]"
    by (rule ordered [of "ArgsArray [JString ''node'']" _ OptUndefined ?e ?f init_world,
          THEN conjunct2, THEN conjunct2, THEN conjunct2]) simp
  have 3: "signals (snd (exec ?e ?args OptPrimitive (CbFunction ?f))) =
      [(Some (TypeError ''options must be an object''), None)]"
    by (rule ordered [of ?args _ OptPrimitive ?e ?f init_world,
          THEN conjunct2, THEN conjunct2, THEN conjunct2]) simp
  have 4: "signals (snd (exec ?e ?args ?o4 (CbFunction ?f))) =
      [(Some (TypeError ''options.in must be a stream.Readable''), None)]"
    by (rule ordered [of ?args _ ?o4 ?e ?f init_world,
          THEN conjunct2, THEN conjunct2, THEN conjunct2]) (simp add: d)
  have 5: "signals (snd (exec ?e ?args ?o5 (CbFunction ?f))) =
      [(Some (TypeError ''options.out must be a stream.Writable''), None)]"
    by (rule ordered [of ?args _ ?o5 ?e ?f init_world,
          THEN conjunct2, THEN conjunct2, THEN conjunct2]) (simp add: d)
  have 6: "signals (snd (exec ?e ?args ?o6 (CbFunction ?f))) =
      [(Some (TypeError ''options.err must be a stream.Writable''), None)]"
    by (rule ordered [of ?args _ ?o6 ?e ?f init_world,
          THEN conjunct2, THEN conjunct2, THEN conjunct2]) (simp add: d)
  have h: "args_not_array_like ?args \<or> args_too_short ?args \<or> options_not_object ?o5
        \<or> \<not> subscribe_capable (chosen_in ?e ?o5)
        \<or> \<not> write_capable (chosen_out ?e ?o5)
        \<or> \<not> write_capable (chosen_err ?e ?o5)"
    by (simp add: d)
  have 7: "fst (exec ?e ?args ?o5 (CbFunction ?f)) = Returns RetUndefined"
    and 8: "signals (snd (modulenameCmd ?e ?args ?o5 (CbFunction ?f) init_world)) = []"
    using any [OF h, of ?f] by simp_all
  from 1 2 3 4 5 6 7 8 show ?thesis by (intro conjI)
qed

subsection \<open>C9: when the entry point throws\<close>

text \<open>
  C9 as stated fails twice. A callback argument that is present, falsy and not a function
  (\<open>0\<close>, say) does not make the entry point throw when a Promise constructor exists: a
  Promise is returned. And with a callback that is a function, the entry point throws
  the exception of a wrapped function that throws before it reports, so the TypeError
  is not the only exception of the entry point.
\<close>

theorem callback_type_error_counterexample:
  "fst (modulenameCmd
      (node_env (fixed_parser (YargsRun None None)) (fixed_wrapped (ReportsLater None (Some 0))))
      (ArgsArray [JString ''node'', JString ''cmd'', JString ''x''])
      OptUndefined CbFalsy init_world) = Returns RetPromise
   \<and> fst (modulenameCmd
      (node_env
         (fixed_parser (YargsRun (Some (ParseOk
            \<lparr>opt_help = False, opt_version = False, positional = [''x''],
             opt_verbose = 0, opt_quiet = 0\<rparr> [])) None))
         (fixed_wrapped (ThrowsOnly (OtherError ''Error'' ''not a repository''))))
      (ArgsArray [JString ''node'', JString ''cmd'', JString ''x''])
      OptUndefined (CbFunction (UserFn silent)) init_world) =
     Throws (OtherError ''Error'' ''not a repository'')
   \<and> signals (snd (exec
      (node_env
         (fixed_parser (YargsRun (Some (ParseOk
            \<lparr>opt_help = False, opt_version = False, positional = [''x''],
             opt_verbose = 0, opt_quiet = 0\<rparr> [])) None))
         (fixed_wrapped (ThrowsOnly (OtherError ''Error'' ''not a repository''))))
      (ArgsArray [JString ''node'', JString ''cmd'', JString ''x''])
      OptUndefined (CbFunction (UserFn silent)))) = []"
proof -
  let ?ao = "\<lparr>opt_help = False, opt_version = False, positional = [''x''],
             opt_verbose = 0, opt_quiet = 0\<rparr>"
  let ?x = "OtherError ''Error'' ''not a repository''"
  let ?e1 = "node_env (fixed_parser (YargsRun None None))
               (fixed_wrapped (ReportsLater None (Some 0)))"
  let ?e2 = "node_env (fixed_parser (YargsRun (Some (ParseOk ?ao [])) None))
               (fixed_wrapped (ThrowsOnly ?x))"
  let ?args = "ArgsArray [JString ''node'', JString ''cmd'', JString ''x'']"
  have p: "fst (modulenameCmd ?e1 ?args OptUndefined CbFalsy init_world) = Returns RetPromise"
    by (simp add: modulenameCmd_deferred callback_after_shift_def node_env_def
          split: prod.splits outcome.splits)
  have v: "validate ?e2 ?args OptUndefined = Inr ([''x''], std_streams)"
    by (simp add: validate_def normalize_args_def resolve_options_def check_streams_def
          node_env_def std_stream_def std_streams_def)
  have y: "yargs ?e2 [''x''] = YargsRun (Some (ParseOk ?ao [])) None"
    "modulename ?e2 \<lparr>files = [''x''], verbosity = 0\<rparr> = ThrowsOnly ?x"
    by (simp_all add: node_env_def fixed_parser_def fixed_wrapped_def)
  have c: "modulenameCmd ?e2 ?args OptUndefined (CbFunction (UserFn silent)) init_world =
      (Throws ?x,
       record_event (Invoked \<lparr>files = [''x''], verbosity = 0\<rparr>)
         (record_event (Parsing [''x'']) init_world))"
    by (simp add: modulenameCmd_function dispatch_def v y parseYargs_eq parse_completion_def
          call_modulename_def)
  have s: "signals (snd (exec ?e2 ?args OptUndefined (CbFunction (UserFn silent)))) = []"
    by (simp add: snd_exec c drain_signals_nil)
  from p c s show ?thesis by simp
qed

text \<open>
  C9, amended. When the callback argument is truthy and not a function, or is falsy while
  the options argument is not a function and no Promise constructor exists, the entry
  point throws the TypeError \<open>callback must be a function\<close> before it does anything
  else. When the callback argument is falsy, the options argument is not a function and
  a Promise constructor exists, it returns a Promise and does not throw. The entry point
  throws without having called the completion callback under the first condition, and
  otherwise only when validation has passed, the parse has succeeded with no terminal
  flag and exactly one positional argument, and the wrapped function either throws
  before it reports, or reports on a later turn only while the parser throws after its
  completion.
\<close>

theorem entry_point_throws:
  "(callback = CbTruthy
      \<or> \<not> truthy callback \<and> \<not> options_is_function options \<and> \<not> promise_defined e \<longrightarrow>
      modulenameCmd e args options callback w =
        (Throws (TypeError ''callback must be a function''), w))
   \<and> (\<not> truthy callback \<and> \<not> options_is_function options \<and> promise_defined e \<longrightarrow>
      fst (modulenameCmd e args options callback w) = Returns RetPromise)
   \<and> (fst (modulenameCmd e args options callback w) = Throws x
        \<and> signals (snd (modulenameCmd e args options callback w)) = signals w \<longleftrightarrow>
      (callback = CbTruthy
        \<or> \<not> truthy callback \<and> \<not> options_is_function options \<and> \<not> promise_defined e)
       \<and> x = TypeError ''callback must be a function''
      \<or> (\<exists>f options' argv st ao out.
            (callback = CbFunction f \<and> options' = options
             \<or> \<not> truthy callback \<and> options = OptFunction f \<and> options' = OptNull)
            \<and> validate e args options' = Inr (argv, st)
            \<and> completes (yargs e argv) = Some (ParseOk ao out)
            \<and> \<not> opt_help ao \<and> \<not> opt_version ao \<and> length (positional ao) = 1
            \<and> (modulename e \<lparr>files = positional ao,
                  verbosity = int (opt_verbose ao) - int (opt_quiet ao)\<rparr> = ThrowsOnly x
                \<or> (\<exists>err code. modulename e \<lparr>files = positional ao,
                      verbosity = int (opt_verbose ao) - int (opt_quiet ao)\<rparr>
                      = ReportsLater err code)
                  \<and> throws (yargs e argv) = Some x)))"
  (is "?A \<and> ?B \<and> (?L \<longleftrightarrow> ?N \<or> ?R)")
proof (intro conjI)
  show ?A
    by (auto simp: modulenameCmd_not_callable shift_falsy)
  show ?B
    by (auto simp: modulenameCmd_deferred shift_falsy split: prod.splits outcome.splits)
  show "?L \<longleftrightarrow> ?N \<or> ?R"
  proof (cases callback options e rule: entry_cases)
    case not_callable
    then have m: "modulenameCmd e args options callback w =
        (Throws (TypeError ''callback must be a function''), w)"
      by (auto simp: modulenameCmd_not_callable shift_falsy)
    have "\<not> ?R"
      using not_callable by auto
    with not_callable show ?thesis
      unfolding m by auto
  next
    case deferred
    then have m: "fst (modulenameCmd e args options callback w) = Returns RetPromise"
      by (auto simp: modulenameCmd_deferred shift_falsy split: prod.splits outcome.splits)
    have "\<not> ?R"
      using deferred by auto
    moreover have "\<not> ?N"
      using deferred by auto
    ultimately show ?thesis
      unfolding m by simp
  next
    case (callable f)
    have m: "modulenameCmd e args options callback w = dispatch e args options f w"
      using callable by (simp add: modulenameCmd_function)
    have n: "?N = False"
      using callable by simp
    have l: "?L \<longleftrightarrow>
      (\<exists>argv st ao out.
         validate e args options = Inr (argv, st)
         \<and> completes (yargs e argv) = Some (ParseOk ao out)
         \<and> \<not> opt_help ao \<and> \<not> opt_version ao \<and> length (positional ao) = 1
         \<and> (modulename e \<lparr>files = positional ao,
               verbosity = int (opt_verbose ao) - int (opt_quiet ao)\<rparr> = ThrowsOnly x
             \<or> (\<exists>err code. modulename e \<lparr>files = positional ao,
                   verbosity = int (opt_verbose ao) - int (opt_quiet ao)\<rparr>
                   = ReportsLater err code)
               \<and> throws (yargs e argv) = Some x))"
      unfolding m by (rule dispatch_throws_unreported)
    have r: "?R \<longleftrightarrow>
      (\<exists>argv st ao out.
         validate e args options = Inr (argv, st)
         \<and> completes (yargs e argv) = Some (ParseOk ao out)
         \<and> \<not> opt_help ao \<and> \<not> opt_version ao \<and> length (positional ao) = 1
         \<and> (modulename e \<lparr>files = positional ao,
               verbosity = int (opt_verbose ao) - int (opt_quiet ao)\<rparr> = ThrowsOnly x
             \<or> (\<exists>err code. modulename e \<lparr>files = positional ao,
                   verbosity = int (opt_verbose ao) - int (opt_quiet ao)\<rparr>
                   = ReportsLater err code)
               \<and> throws (yargs e argv) = Some x))"
      using callable by simp
    show ?thesis
      unfolding l r n by (simp only: simp_thms)
  next
    case (shifted f)
    have m: "modulenameCmd e args options callback w = dispatch e args OptNull f w"
    proof -
      have "callback_after_shift options callback = CbFunction f"
        using shifted by (simp add: shift_callable)
      moreover have "options_after_shift options callback = OptNull"
        using shifted by (simp add: shift_options)
      ultimately show ?thesis
        using modulenameCmd_callable [of options callback f e args w] by simp
    qed
    have n: "?N = False"
      using shifted by auto
    have l: "?L \<longleftrightarrow>
      (\<exists>argv st ao out.
         validate e args OptNull = Inr (argv, st)
         \<and> completes (yargs e argv) = Some (ParseOk ao out)
         \<and> \<not> opt_help ao \<and> \<not> opt_version ao \<and> length (positional ao) = 1
         \<and> (modulename e \<lparr>files = positional ao,
               verbosity = int (opt_verbose ao) - int (opt_quiet ao)\<rparr> = ThrowsOnly x
             \<or> (\<exists>err code. modulename e \<lparr>files = positional ao,
                   verbosity = int (opt_verbose ao) - int (opt_quiet ao)\<rparr>
                   = ReportsLater err code)
               \<and> throws (yargs e argv) = Some x))"
      unfolding m by (rule dispatch_throws_unreported)
    have r: "?R \<longleftrightarrow>
      (\<exists>argv st ao out.
         validate e args OptNull = Inr (argv, st)
         \<and> completes (yargs e argv) = Some (ParseOk ao out)
         \<and> \<not> opt_help ao \<and> \<not> opt_version ao \<and> length (positional ao) = 1
         \<and> (modulename e \<lparr>files = positional ao,
               verbosity = int (opt_verbose ao) - int (opt_quiet ao)\<rparr> = ThrowsOnly x
             \<or> (\<exists>err code. modulename e \<lparr>files = positional ao,
                   verbosity = int (opt_verbose ao) - int (opt_quiet ao)\<rparr>
                   = ReportsLater err code)
               \<and> throws (yargs e argv) = Some x))"
    proof -
      have k: "(callback = CbFunction f' \<and> options' = options
                \<or> \<not> truthy callback \<and> options = OptFunction f' \<and> options' = OptNull)
               \<longleftrightarrow> f' = f \<and> options' = OptNull" for f' options'
        using shifted by auto
      show ?thesis
        by (simp add: k)
    qed
    show ?thesis
      unfolding l r n by (simp only: simp_thms)
  qed
qed

text \<open>
  A string as the callback, and no callback without a Promise constructor, give the
  TypeError and leave the world as it was; no callback with a Promise constructor gives
  a Promise; a wrapped function that throws at once makes the entry point throw its
  error with no call of the callback.
\<close>

theorem entry_point_throws_witness:
  "modulenameCmd
      (node_env (fixed_parser (YargsRun None None)) (fixed_wrapped (ReportsLater None (Some 0))))
      (ArgsArray [JString ''node'', JString ''cmd'', JString ''x''])
      OptUndefined CbTruthy init_world =
     (Throws (TypeError ''callback must be a function''), init_world)
   \<and> modulenameCmd
      ((node_env (fixed_parser (YargsRun None None))
          (fixed_wrapped (ReportsLater None (Some 0))))\<lparr>promise_defined := False\<rparr>)
      (ArgsArray [JString ''node'', JString ''cmd'', JString ''x''])
      OptUndefined CbUndefined init_world =
     (Throws (TypeError ''callback must be a function''), init_world)
   \<and> fst (modulenameCmd
      (node_env (fixed_parser (YargsRun None None)) (fixed_wrapped (ReportsLater None (Some 0))))
      (ArgsArray [JString ''node'', JString ''cmd'', JString ''x''])
      OptUndefined CbUndefined init_world) = Returns RetPromise
   \<and> fst (modulenameCmd
      (node_env
         (fixed_parser (YargsRun (Some (ParseOk
            \<lparr>opt_help = False, opt_version = False, positional = [''x''],
             opt_verbose = 0, opt_quiet = 0\<rparr> [])) None))
         (fixed_wrapped (ThrowsOnly (OtherError ''Error'' ''not a repository''))))
      (ArgsArray [JString ''node'', JString ''cmd'', JString ''x''])
      OptUndefined (CbFunction (UserFn silent)) init_world) =
     Throws (OtherError ''Error'' ''not a repository'')
   \<and> signals (snd (modulenameCmd
      (node_env
         (fixed_parser (YargsRun (Some (ParseOk
            \<lparr>opt_help = False, opt_version = False, positional = [''x''],
             opt_verbose = 0, opt_quiet = 0\<rparr> [])) None))
         (fixed_wrapped (ThrowsOnly (OtherError ''Error'' ''not a repository''))))
      (ArgsArray [JString ''node'', JString ''cmd'', JString ''x''])
      OptUndefined (CbFunction (UserFn silent)) init_world)) = []"
proof -
  let ?ao = "\<lparr>opt_help = False, opt_version = False, positional = [''x''],
             opt_verbose = 0, opt_quiet = 0\<rparr>"
  let ?x = "OtherError ''Error'' ''not a repository''"
  let ?e = "node_env (fixed_parser (YargsRun None None))
              (fixed_wrapped (ReportsLater None (Some 0)))"
  let ?e2 = "node_env (fixed_parser (YargsRun (Some (ParseOk ?ao [])) None))
               (fixed_wrapped (ThrowsOnly ?x))"
  let ?args = "ArgsArray [JString ''node'', JString ''cmd'', JString ''x'']"
  let ?t = "TypeError ''callback must be a function''"
  note a = entry_point_throws [THEN conjunct1, THEN mp]
  note b = entry_point_throws [THEN conjunct2, THEN conjunct1, THEN mp]
  note c = entry_point_throws [THEN conjunct2, THEN conjunct2, THEN iffD2, OF disjI2]
  have 1: "modulenameCmd ?e ?args OptUndefined CbTruthy init_world = (Throws ?t, init_world)"
    by (rule a) simp
  have 2: "modulenameCmd (?e\<lparr>promise_defined := False\<rparr>) ?args OptUndefined CbUndefined
             init_world = (Throws ?t, init_world)"
    by (rule a) simp
  have 3: "fst (modulenameCmd ?e ?args OptUndefined CbUndefined init_world) = Returns RetPromise"
    by (rule b) (simp add: node_env_def)
  have v: "validate ?e2 ?args OptUndefined = Inr ([''x''], std_streams)"
    by (simp add: validate_def normalize_args_def resolve_options_def check_streams_def
          node_env_def std_stream_def std_streams_def)
  have "fst (modulenameCmd ?e2 ?args OptUndefined (CbFunction (UserFn silent)) init_world) =
          Throws ?x
        \<and> signals (snd (modulenameCmd ?e2 ?args OptUndefined (CbFunction (UserFn silent))
             init_world)) = signals init_world"
    by (rule c, rule exI [of _ "UserFn silent"], rule exI [of _ OptUndefined],
        rule exI [of _ "[''x'']"], rule exI [of _ std_streams], rule exI [of _ ?ao],
        rule exI [of _ "[]"])
       (simp add: v, simp add: node_env_def fixed_parser_def fixed_wrapped_def)
  with 1 2 3 show ?thesis by simp
qed

subsection \<open>C10: the callback in the place of the options\<close>

text \<open>
  C10. \<open>invoke(args, f)\<close>, with a function \<open>f\<close> and no third argument, is
  \<open>invoke(args, null, f)\<close>: \<open>f\<close> is the completion callback, and the options are
  \<open>null\<close>, for which the three streams are those of the process.
\<close>

theorem two_argument_form:
  "modulenameCmd e args (OptFunction f) CbUndefined w =
     modulenameCmd e args OptNull (CbFunction f) w
   \<and> modulenameCmd e args (OptFunction f) CbUndefined w = dispatch e args OptNull f w
   \<and> resolve_options e OptNull =
       check_streams (process_stdin e, process_stdout e, process_stderr e)"
  by (simp add: modulenameCmd_callable callback_after_shift_def options_after_shift_def
        modulenameCmd_function resolve_options_def)


end
